(* ===== verification/Prelude.thy ===== *)
theory Prelude
  imports Main "HOL-Library.Multiset"
begin

text \<open>
  Shared vocabulary of the development: the names of the model's basic types,
  the collections of rewrite rules the component theories fill, and generic facts
  on lists, options and multisets that the components' proofs use: partitioning a
  list by a key, filtering a list that is sorted by a key, and the first element
  that \<^const>\<open>find\<close> returns from a sorted list.
\<close>

type_synonym ident = string
  \<comment> \<open>the Prisma string identifiers (cuid/uuid columns)\<close>

type_synonym timestamp = nat
  \<comment> \<open>a \<open>DateTime\<close> column, read as a point on a discrete time line\<close>

named_theorems view_defs "definitions of the rendered sidebar, unfolded to evaluate it"
named_theorems query_simps "characteristic equations of the database query"

subsection \<open>Partitioning a list by a key\<close>

text \<open>
  Filtering a list once per key value of a duplicate-free list of keys and
  concatenating the results keeps every element whose key is among them, once.
\<close>

lemma mset_concat_map_filter_key:
  "distinct ts \<Longrightarrow>
   mset (concat (map (\<lambda>t. filter (\<lambda>x. f x = t) xs) ts)) =
   filter_mset (\<lambda>x. f x \<in> set ts) (mset xs)"
proof (induction ts)
  case Nil
  then show ?case by simp
next
  case (Cons t ts)
  have disj: "\<forall>x. (f x = t \<and> f x \<in> set ts) = False"
    using Cons.prems by auto
  have "mset (concat (map (\<lambda>t. filter (\<lambda>x. f x = t) xs) (t # ts))) =
        filter_mset (\<lambda>x. f x = t) (mset xs) + filter_mset (\<lambda>x. f x \<in> set ts) (mset xs)"
    using Cons by (simp add: mset_filter)
  also have "\<dots> = filter_mset (\<lambda>x. f x \<in> set (t # ts)) (mset xs)"
    by (induction xs) (use disj in auto)
  finally show ?case .
qed

lemma filter_mset_all_true:
  "(\<And>x. P x) \<Longrightarrow> filter_mset P M = M"
  by (simp add: filter_mset_eq_conv)

subsection \<open>Lists sorted by a key\<close>

lemma sorted_key_filter [intro]:
  "sorted (map f xs) \<Longrightarrow> sorted (map f (filter P xs))"
  by (rule sorted_filter)

text \<open>
  On a list sorted by a key, the first element that satisfies a predicate has the
  least key among all elements that satisfy it.
\<close>

lemma map_filter_cong:
  "(\<And>x. P x \<Longrightarrow> f x = g x) \<Longrightarrow> map f (filter P xs) = map g (filter P xs)"
  by (induction xs) auto

lemma find_sorted_least:
  assumes "sorted (map f xs)" and "find P xs = Some x"
    and "y \<in> set xs" and "P y"
  shows "f x \<le> f y"
  using assms
proof (induction xs)
  case Nil
  then show ?case by simp
next
  case (Cons z zs)
  show ?case
  proof (cases "P z")
    case True
    with Cons.prems(2) have "x = z" by simp
    with Cons.prems(1,3) show ?thesis by auto
  next
    case False
    with Cons.prems have "y \<in> set zs" and "find P zs = Some x" by auto
    with Cons.IH Cons.prems(1,4) show ?thesis by simp
  qed
qed

lemma find_Some_in_set:
  "find P xs = Some x \<Longrightarrow> x \<in> set xs \<and> P x"
  by (induction xs) (auto split: if_splits)

lemma concat_map_Nil [simp]:
  "concat (map (\<lambda>x. []) xs) = []"
  by (induction xs) auto

lemma concat_concat_eq:
  "concat (concat xss) = concat (map concat xss)"
  by (induction xss) auto

lemma if_nonempty_self [simp]:
  "(if xs \<noteq> [] then xs else []) = xs"
  by simp

subsection \<open>Options of lists\<close>

lemma those_map_Some [simp]:
  "those (map (\<lambda>x. Some (g x)) xs) = Some (map g xs)"
  by (induction xs) auto

lemma those_eq_None_iff:
  "those xs = None \<longleftrightarrow> None \<in> set xs"
  by (induction xs) (auto split: option.splits)

lemma those_map_Some_iff:
  "those (map f xs) = Some ys \<longleftrightarrow> (\<forall>x \<in> set xs. f x \<noteq> None) \<and> ys = map (the \<circ> f) xs"
  by (induction xs arbitrary: ys) (auto split: option.splits)

lemma those_eq_Some_map:
  "(\<And>x. x \<in> set xs \<Longrightarrow> g x \<noteq> None) \<Longrightarrow> those (map g xs) = Some (map (the \<circ> g) xs)"
  by (induction xs) (auto split: option.splits)

lemma map_filter_append [simp]:
  "List.map_filter f (xs @ ys) = List.map_filter f xs @ List.map_filter f ys"
  by (simp add: List.map_filter_def)

end
