(* ===== verification/Schema.thy ===== *)
theory Schema
  imports Prelude
begin

text \<open>
  The data the sidebar reads: the Prisma enums \<open>ChannelType\<close> and \<open>MemberRole\<close>
  (imported from \<open>@prisma/client\<close> in \<open>server-sidebar.tsx\<close>), the rows of the
  \<open>Profile\<close>, \<open>Server\<close>, \<open>Channel\<close> and \<open>Member\<close> tables with the columns the
  component reads, the database as four tables, and the referential integrity the
  schema's relations guarantee (\<open>db_wf\<close>). The Prisma schema is not part of the
  sources, so this theory follows the specification's data model.
  \<open>MemberRole\<close> is ordered by declaration (ADMIN, MODERATOR, GUEST), which is how the
  database orders an enum column in \<open>orderBy: { role: "asc" }\<close>.
\<close>

datatype channel_type = TEXT | AUDIO | VIDEO | SLATE | TODO

datatype member_role = ADMIN | MODERATOR | GUEST

fun role_rank :: "member_role \<Rightarrow> nat" where
  "role_rank ADMIN = 0"
| "role_rank MODERATOR = 1"
| "role_rank GUEST = 2"

lemma role_rank_inj: "role_rank r = role_rank s \<Longrightarrow> r = s"
  by (cases r; cases s) simp_all

instantiation member_role :: linorder
begin

definition less_eq_member_role :: "member_role \<Rightarrow> member_role \<Rightarrow> bool" where
  "less_eq_member_role r s \<longleftrightarrow> role_rank r \<le> role_rank s"

definition less_member_role :: "member_role \<Rightarrow> member_role \<Rightarrow> bool" where
  "less_member_role r s \<longleftrightarrow> role_rank r < role_rank s"

instance
proof
  fix r s t :: member_role
  show "r < s \<longleftrightarrow> r \<le> s \<and> \<not> s \<le> r"
    by (simp add: less_eq_member_role_def less_member_role_def) arith
  show "r \<le> r" by (simp add: less_eq_member_role_def)
  show "r \<le> s \<Longrightarrow> s \<le> t \<Longrightarrow> r \<le> t"
    by (simp add: less_eq_member_role_def)
  show "r \<le> s \<Longrightarrow> s \<le> r \<Longrightarrow> r = s"
    by (simp add: less_eq_member_role_def role_rank_inj)
  show "r \<le> s \<or> s \<le> r"
    by (simp add: less_eq_member_role_def) arith
qed

end

lemma member_role_order [simp]:
  "ADMIN < MODERATOR" "MODERATOR < GUEST" "ADMIN < GUEST"
  by (simp_all add: less_member_role_def)

lemma ADMIN_least [simp]: "ADMIN \<le> r"
  by (simp add: less_eq_member_role_def)

subsection \<open>Rows\<close>

record profile =
  profile_id :: ident
  profile_userId :: ident
    \<comment> \<open>the authentication provider's user id, \<open>@unique\<close>\<close>
  profile_name :: string

record channel =
  channel_id :: ident
  channel_name :: string
  channel_type :: channel_type
  channel_profileId :: ident
  channel_serverId :: ident
  channel_createdAt :: timestamp

record member_row =
  member_id :: ident
  member_role :: member_role
  member_profileId :: ident
  member_serverId :: ident

text \<open>A member as the query returns it: the row with its \<open>profile\<close> relation included.\<close>

record member = member_row +
  member_profile :: profile

record server_row =
  server_id :: ident
  server_name :: string

text \<open>A server as the query returns it, with \<open>channels\<close> and \<open>members\<close> included.\<close>

record server = server_row +
  server_channels :: "channel list"
  server_members :: "member list"

record db =
  db_profiles :: "profile list"
  db_servers :: "server_row list"
  db_channels :: "channel list"
  db_members :: "member_row list"

subsection \<open>Referential integrity\<close>

text \<open>
  What the schema's \<open>@id\<close>, \<open>@unique\<close> and \<open>@relation\<close> fields guarantee: primary
  keys and a profile's user id are unique, and every member's \<open>profileId\<close> names a
  profile.
\<close>

definition db_wf :: "db \<Rightarrow> bool" where
  "db_wf d \<longleftrightarrow>
     distinct (map profile_id (db_profiles d)) \<and>
     distinct (map profile_userId (db_profiles d)) \<and>
     distinct (map server_id (db_servers d)) \<and>
     distinct (map channel_id (db_channels d)) \<and>
     distinct (map member_id (db_members d)) \<and>
     (\<forall>m \<in> set (db_members d). \<exists>p \<in> set (db_profiles d). profile_id p = member_profileId m)"

end
