(* ===== verification/Query.thy ===== *)
theory Query
  imports Schema
begin

text \<open>
  The one database read of the sidebar (\<open>server-sidebar.tsx\<close>, lines 52--71):
  \<open>db.server.findUnique\<close> by id, including the server's channels ordered by
  \<open>createdAt\<close> ascending and its members, each with its \<open>profile\<close>, ordered by
  \<open>role\<close> ascending. The orderings are stable sorts of the table order
  (\<^const>\<open>sort_key\<close>); the database leaves the order of ties open, so every
  property below is stated only through what the query guarantees for any tie order:
  sortedness by the key, and the multiset of rows. A member whose \<open>profile\<close>
  relation finds no row makes Prisma reject the result (a required relation returned
  null): the query error \<open>InconsistentQuery\<close>; \<open>db_wf\<close> rules it out.
\<close>

datatype query_error = InconsistentQuery

definition include_profile :: "db \<Rightarrow> member_row \<Rightarrow> member option" where
  "include_profile d m =
     map_option
       (\<lambda>p. \<lparr>member_id = member_id m, member_role = member_role m,
             member_profileId = member_profileId m, member_serverId = member_serverId m,
             member_profile = p\<rparr>)
       (find (\<lambda>p. profile_id p = member_profileId m) (db_profiles d))"

definition server_channels_query :: "db \<Rightarrow> ident \<Rightarrow> channel list" where
  "server_channels_query d sid =
     sort_key channel_createdAt (filter (\<lambda>c. channel_serverId c = sid) (db_channels d))"

definition server_members_query :: "db \<Rightarrow> ident \<Rightarrow> member_row list" where
  "server_members_query d sid =
     sort_key member_role (filter (\<lambda>m. member_serverId m = sid) (db_members d))"

definition find_unique_server :: "db \<Rightarrow> ident \<Rightarrow> query_error + server option" where
  "find_unique_server d sid =
     (case find (\<lambda>s. server_id s = sid) (db_servers d) of
        None \<Rightarrow> Inr None
      | Some s \<Rightarrow>
          (case those (map (include_profile d) (server_members_query d sid)) of
             None \<Rightarrow> Inl InconsistentQuery
           | Some ms \<Rightarrow>
               Inr (Some \<lparr>server_id = server_id s, server_name = server_name s,
                          server_channels = server_channels_query d sid,
                          server_members = ms\<rparr>)))"

text \<open>The row of a member, without its included profile.\<close>

definition row_of :: "member \<Rightarrow> member_row" where
  "row_of m = \<lparr>member_id = member_id m, member_role = member_role m,
                member_profileId = member_profileId m, member_serverId = member_serverId m\<rparr>"

subsection \<open>The include of the profile relation\<close>

lemma include_profile_Some:
  "include_profile d m = Some m' \<Longrightarrow>
   row_of m' = m \<and> profile_id (member_profile m') = member_profileId m \<and>
   member_profile m' \<in> set (db_profiles d)"
  by (auto simp: include_profile_def row_of_def dest!: find_Some_in_set)

lemma include_profile_None_iff:
  "include_profile d m = None \<longleftrightarrow>
   (\<forall>p \<in> set (db_profiles d). profile_id p \<noteq> member_profileId m)"
  by (auto simp: include_profile_def find_None_iff)

lemma those_include_profile:
  "those (map (include_profile d) rs) = Some ms \<Longrightarrow>
   map row_of ms = rs \<and>
   (\<forall>m \<in> set ms. profile_id (member_profile m) = member_profileId m \<and>
                 member_profile m \<in> set (db_profiles d))"
proof (induction rs arbitrary: ms)
  case Nil
  then show ?case by simp
next
  case (Cons r rs)
  from Cons.prems obtain m ms' where
    m: "include_profile d r = Some m" and
    ms': "those (map (include_profile d) rs) = Some ms'" and
    ms: "ms = m # ms'"
    by (auto split: option.splits)
  from include_profile_Some [OF m] have "row_of m = r" and
    "profile_id (member_profile m) = member_profileId m"
    by (simp_all add: row_of_def member_row.equality) (auto simp: row_of_def)
  with Cons.IH [OF ms'] include_profile_Some [OF m] ms show ?case by auto
qed

lemma those_include_profile_wf:
  assumes "\<forall>m \<in> set rs. \<exists>p \<in> set (db_profiles d). profile_id p = member_profileId m"
  shows "\<exists>ms. those (map (include_profile d) rs) = Some ms"
proof -
  have "\<forall>r \<in> set rs. include_profile d r \<noteq> None"
    using assms by (auto simp: include_profile_None_iff)
  then have "None \<notin> set (map (include_profile d) rs)"
    by (metis imageE list.set_map)
  then show ?thesis
    by (cases "those (map (include_profile d) rs)") (simp_all add: those_eq_None_iff)
qed

subsection \<open>What the query returns\<close>

lemma find_unique_server_None_iff:
  "find_unique_server d sid = Inr None \<longleftrightarrow> sid \<notin> set (map server_id (db_servers d))"
  by (auto simp: find_unique_server_def find_None_iff split: option.splits
           dest!: find_Some_in_set)

lemma include_server_members_wf:
  assumes "db_wf d"
  shows "\<exists>ms. those (map (include_profile d) (server_members_query d sid)) = Some ms"
proof -
  have "\<forall>m \<in> set (server_members_query d sid).
          \<exists>p \<in> set (db_profiles d). profile_id p = member_profileId m"
    using assms by (auto simp: db_wf_def server_members_query_def)
  then show ?thesis by (rule those_include_profile_wf)
qed

text \<open>
  C10. The query fails exactly when the requested server exists and one of its own member
  rows references a profile that is not in the table: member rows of other servers, and a
  server that does not exist, never make it fail.
\<close>

theorem find_unique_server_error_iff:
  "find_unique_server d sid = Inl InconsistentQuery \<longleftrightarrow>
   sid \<in> set (map server_id (db_servers d)) \<and>
   (\<exists>m \<in> set (db_members d). member_serverId m = sid \<and>
      (\<forall>p \<in> set (db_profiles d). profile_id p \<noteq> member_profileId m))"
proof -
  have "those (map (include_profile d) (server_members_query d sid)) = None \<longleftrightarrow>
        (\<exists>m \<in> set (db_members d). member_serverId m = sid \<and>
           (\<forall>p \<in> set (db_profiles d). profile_id p \<noteq> member_profileId m))"
  proof -
    have "those (map (include_profile d) (server_members_query d sid)) = None \<longleftrightarrow>
          (\<exists>m \<in> set (server_members_query d sid). include_profile d m = None)"
      unfolding those_eq_None_iff by (metis (mono_tags, lifting) imageE image_eqI set_map)
    then show ?thesis
      by (auto simp: server_members_query_def include_profile_None_iff)
  qed
  note mem = this
  show ?thesis
  proof (cases "find (\<lambda>s. server_id s = sid) (db_servers d)")
    case None
    then have "sid \<notin> set (map server_id (db_servers d))"
      by (auto simp: find_None_iff)
    with None show ?thesis by (simp add: find_unique_server_def)
  next
    case (Some r)
    then have "sid \<in> set (map server_id (db_servers d))"
      using find_Some_in_set [OF Some] by (metis image_eqI list.set_map)
    with Some mem show ?thesis
      by (cases "those (map (include_profile d) (server_members_query d sid))")
         (auto simp: find_unique_server_def)
  qed
qed

lemma find_unique_server_Some:
  assumes "find_unique_server d sid = Inr (Some s)"
  obtains r where "r \<in> set (db_servers d)" and "server_id r = sid"
    and "server_id s = sid" and "server_name s = server_name r"
    and "server_channels s = server_channels_query d sid"
    and "those (map (include_profile d) (server_members_query d sid)) = Some (server_members s)"
  using assms
  by (auto simp: find_unique_server_def split: option.splits dest!: find_Some_in_set)

lemma find_unique_server_rows:
  assumes "find_unique_server d sid = Inr (Some s)"
  shows "server_id s = sid" and "server_channels s = server_channels_query d sid"
    and "map row_of (server_members s) = server_members_query d sid"
    and "\<forall>m \<in> set (server_members s).
       profile_id (member_profile m) = member_profileId m \<and> member_profile m \<in> set (db_profiles d)"
proof -
  obtain r where "r \<in> set (db_servers d)" and "server_id r = sid"
    and sid: "server_id s = sid" and "server_name s = server_name r"
    and chans: "server_channels s = server_channels_query d sid"
    and mems: "those (map (include_profile d) (server_members_query d sid)) = Some (server_members s)"
    using assms by (rule find_unique_server_Some)
  from those_include_profile [OF mems] sid chans
  show "server_id s = sid" and "server_channels s = server_channels_query d sid"
    and "map row_of (server_members s) = server_members_query d sid"
    and "\<forall>m \<in> set (server_members s).
       profile_id (member_profile m) = member_profileId m \<and> member_profile m \<in> set (db_profiles d)"
    by auto
qed

lemma find_unique_server_sorted:
  assumes "find_unique_server d sid = Inr (Some s)"
  shows "sorted (map channel_createdAt (server_channels s))"
    and "sorted (map member_role (server_members s))"
proof -
  have "map member_role (server_members s) = map member_role (map row_of (server_members s))"
    by (simp add: row_of_def)
  then show "sorted (map member_role (server_members s))"
    using find_unique_server_rows(3) [OF assms] by (simp add: server_members_query_def)
  show "sorted (map channel_createdAt (server_channels s))"
    using find_unique_server_rows(2) [OF assms] by (simp add: server_channels_query_def)
qed

text \<open>
  C9. A server the query returns is the server asked for, with exactly the channels of
  that server, sorted by creation time, and exactly its member rows, sorted by role,
  each joined to the profile it references.
\<close>

theorem find_unique_server_result:
  assumes "find_unique_server d sid = Inr (Some s)"
  shows "server_id s = sid \<and>
    sorted (map channel_createdAt (server_channels s)) \<and>
    mset (server_channels s) = mset (filter (\<lambda>c. channel_serverId c = sid) (db_channels d)) \<and>
    sorted (map member_role (server_members s)) \<and>
    mset (map row_of (server_members s)) =
      mset (filter (\<lambda>m. member_serverId m = sid) (db_members d)) \<and>
    (\<forall>m \<in> set (server_members s).
       profile_id (member_profile m) = member_profileId m \<and> member_profile m \<in> set (db_profiles d))"
  using find_unique_server_rows [OF assms] find_unique_server_sorted [OF assms]
  by (simp add: server_channels_query_def server_members_query_def)

subsection \<open>The query as a relation\<close>

text \<open>
  What Prisma promises for the query, whatever order the database gives rows with equal
  keys: a server row with the identifier, its channels in some order sorted by
  \<open>createdAt\<close>, and its member rows, each joined to its profile, in some order sorted by
  \<open>role\<close>. \<^const>\<open>find_unique_server\<close> is one of the results this relation admits.
\<close>

definition query_admits :: "db \<Rightarrow> ident \<Rightarrow> server \<Rightarrow> bool" where
  "query_admits d sid s \<longleftrightarrow>
     server_id s = sid \<and>
     (\<exists>r \<in> set (db_servers d). server_id r = sid \<and> server_name s = server_name r) \<and>
     mset (server_channels s) = mset (filter (\<lambda>c. channel_serverId c = sid) (db_channels d)) \<and>
     sorted (map channel_createdAt (server_channels s)) \<and>
     (case those (map (include_profile d) (filter (\<lambda>m. member_serverId m = sid) (db_members d))) of
        None \<Rightarrow> False
      | Some ms \<Rightarrow> mset (server_members s) = mset ms) \<and>
     sorted (map member_role (server_members s))"

lemma find_unique_server_admits:
  assumes "find_unique_server d sid = Inr (Some s)"
  shows "query_admits d sid s"
proof -
  obtain r where r: "r \<in> set (db_servers d)" "server_id r = sid"
    and sid: "server_id s = sid" and name: "server_name s = server_name r"
    and chans: "server_channels s = server_channels_query d sid"
    and mems: "those (map (include_profile d) (server_members_query d sid)) = Some (server_members s)"
    using assms by (rule find_unique_server_Some)
  let ?rows = "filter (\<lambda>m. member_serverId m = sid) (db_members d)"
  from mems have ok: "\<forall>x \<in> set ?rows. include_profile d x \<noteq> None"
    and ms: "server_members s = map (the \<circ> include_profile d) (sort_key member_role ?rows)"
    by (simp_all add: those_map_Some_iff server_members_query_def)
  have "those (map (include_profile d) ?rows) = Some (map (the \<circ> include_profile d) ?rows)"
    using ok by (simp add: those_map_Some_iff)
  moreover have "mset (server_members s) = mset (map (the \<circ> include_profile d) ?rows)"
    by (simp only: ms mset_map mset_sort)
  ultimately show ?thesis
    using r sid name chans find_unique_server_sorted [OF assms]
    by (auto simp: query_admits_def server_channels_query_def)
qed

lemmas find_unique_server_simps [query_simps] =
  find_unique_server_def server_channels_query_def server_members_query_def

end
