(* ===== verification/Partition.thy ===== *)
theory Partition
  imports Query
begin

text \<open>
  The in-memory work of \<open>ServerSidebar\<close> after the query (\<open>server-sidebar.tsx\<close>,
  lines 77--101): the five channel groups, one \<open>filter\<close> by
  \<open>channel.type\<close> each (\<open>textChannels\<close>, \<open>audioChannels\<close>, \<open>videoChannels\<close>,
  \<open>slateChannels\<close>, \<open>todoChannels\<close>), the member list without the viewer
  (\<open>members\<close>, a filter on \<open>profileId\<close>), and the viewer's role (\<open>role\<close>, the
  \<open>role\<close> of the first member whose \<open>profileId\<close> is the viewer's, or
  \<open>undefined\<close>, here \<^const>\<open>None\<close>). The lemmas show that the groups partition
  the channels and keep the query's order, that the viewer never is among
  \<open>members\<close> and everyone else is, and which role the viewer gets.
\<close>

definition textChannels :: "server \<Rightarrow> channel list" where
  "textChannels s = filter (\<lambda>c. channel_type c = TEXT) (server_channels s)"

definition audioChannels :: "server \<Rightarrow> channel list" where
  "audioChannels s = filter (\<lambda>c. channel_type c = AUDIO) (server_channels s)"

definition videoChannels :: "server \<Rightarrow> channel list" where
  "videoChannels s = filter (\<lambda>c. channel_type c = VIDEO) (server_channels s)"

definition slateChannels :: "server \<Rightarrow> channel list" where
  "slateChannels s = filter (\<lambda>c. channel_type c = SLATE) (server_channels s)"

definition other_members :: "profile \<Rightarrow> server \<Rightarrow> member list" where
  "other_members p s = filter (\<lambda>m. member_profileId m \<noteq> profile_id p) (server_members s)"

definition todoChannels :: "server \<Rightarrow> channel list" where
  "todoChannels s = filter (\<lambda>c. channel_type c = TODO) (server_channels s)"

definition viewer_role :: "profile \<Rightarrow> server \<Rightarrow> member_role option" where
  "viewer_role p s =
     map_option member_role (find (\<lambda>m. member_profileId m = profile_id p) (server_members s))"

text \<open>The group of a channel type, in the order the sidebar renders the groups.\<close>

fun channel_group :: "channel_type \<Rightarrow> server \<Rightarrow> channel list" where
  "channel_group TEXT s = textChannels s"
| "channel_group AUDIO s = audioChannels s"
| "channel_group VIDEO s = videoChannels s"
| "channel_group SLATE s = slateChannels s"
| "channel_group TODO s = todoChannels s"

definition section_order :: "channel_type list" where
  "section_order = [TEXT, AUDIO, VIDEO, SLATE, TODO]"

lemmas channel_groups_defs =
  textChannels_def audioChannels_def videoChannels_def slateChannels_def todoChannels_def

subsection \<open>The groups\<close>

lemma channel_group_filter:
  "channel_group t s = filter (\<lambda>c. channel_type c = t) (server_channels s)"
  by (cases t) (simp_all add: channel_groups_defs)

lemma section_order_complete: "distinct section_order \<and> set section_order = UNIV"
proof -
  have "t \<in> set section_order" for t
    by (cases t) (simp_all add: section_order_def)
  then show ?thesis by (auto simp: section_order_def)
qed

lemma concat_channel_groups:
  "concat (map (\<lambda>t. channel_group t s) section_order) =
   textChannels s @ audioChannels s @ videoChannels s @ slateChannels s @ todoChannels s"
  by (simp add: section_order_def)

lemma mset_channel_groups:
  "mset (concat (map (\<lambda>t. channel_group t s) section_order)) = mset (server_channels s)"
proof -
  have "mset (concat (map (\<lambda>t. filter (\<lambda>c. channel_type c = t) (server_channels s)) section_order)) =
        filter_mset (\<lambda>c. channel_type c \<in> set section_order) (mset (server_channels s))"
    using section_order_complete by (intro mset_concat_map_filter_key) simp
  also have "\<dots> = mset (server_channels s)"
    using section_order_complete by (simp add: filter_mset_all_true)
  finally show ?thesis by (simp add: channel_group_filter)
qed

lemma channel_group_nonempty_iff:
  "channel_group t s \<noteq> [] \<longleftrightarrow> (\<exists>c \<in> set (server_channels s). channel_type c = t)"
  by (auto simp: channel_group_filter filter_empty_conv)

text \<open>
  C7. The five groups partition the server's channels: together they hold every
  channel of the server exactly once.
\<close>

theorem channel_groups_partition:
  "mset (textChannels s @ audioChannels s @ videoChannels s @ slateChannels s @ todoChannels s) =
   mset (server_channels s)"
  using mset_channel_groups [of s] by (simp only: concat_channel_groups)

lemma set_channel_group:
  "set (channel_group t s) = {c \<in> set (server_channels s). channel_type c = t}"
  by (auto simp: channel_group_filter)

lemma channel_group_disjoint:
  "t \<noteq> u \<Longrightarrow> set (channel_group t s) \<inter> set (channel_group u s) = {}"
  by (auto simp: channel_group_filter)

lemma channel_group_sorted:
  "sorted (map channel_createdAt (server_channels s)) \<Longrightarrow>
   sorted (map channel_createdAt (channel_group t s))"
  by (auto simp: channel_group_filter)

subsection \<open>The member list and the viewer's role\<close>

lemma mset_other_members:
  "mset (other_members p s) =
   filter_mset (\<lambda>m. member_profileId m \<noteq> profile_id p) (mset (server_members s))"
  by (simp add: other_members_def mset_filter)

lemma set_other_members:
  "set (other_members p s) = {m \<in> set (server_members s). member_profileId m \<noteq> profile_id p}"
  by (auto simp: other_members_def)

lemma viewer_role_None_iff:
  "viewer_role p s = None \<longleftrightarrow> (\<forall>m \<in> set (server_members s). member_profileId m \<noteq> profile_id p)"
  by (auto simp: viewer_role_def find_None_iff)

lemma viewer_role_Some:
  "viewer_role p s = Some r \<Longrightarrow>
   \<exists>m \<in> set (server_members s). member_profileId m = profile_id p \<and> member_role m = r"
  by (auto simp: viewer_role_def dest!: find_Some_in_set)

lemma viewer_role_sorted_Min:
  assumes "sorted (map member_role (server_members s))"
  shows "viewer_role p s =
    (let rs = map member_role (filter (\<lambda>m. member_profileId m = profile_id p) (server_members s))
     in if rs = [] then None else Some (Min (set rs)))"
proof (cases "find (\<lambda>m. member_profileId m = profile_id p) (server_members s)")
  case None
  then show ?thesis by (simp add: viewer_role_def find_None_iff filter_empty_conv)
next
  case (Some m0)
  let ?rs = "map member_role (filter (\<lambda>m. member_profileId m = profile_id p) (server_members s))"
  from find_Some_in_set [OF Some] have m0: "m0 \<in> set (server_members s)"
    "member_profileId m0 = profile_id p" by auto
  then have "member_role m0 \<in> set ?rs" by auto
  moreover have "member_role m0 \<le> r" if "r \<in> set ?rs" for r
    using that find_sorted_least [OF assms Some] by auto
  ultimately have min: "Min (set ?rs) = member_role m0"
    by (intro Min_eqI) auto
  from \<open>member_role m0 \<in> set ?rs\<close> have ne: "?rs \<noteq> []" by (auto simp: filter_empty_conv)
  from Some have "viewer_role p s = Some (member_role m0)"
    by (simp add: viewer_role_def)
  then show ?thesis
    by (simp only: Let_def if_not_P [OF ne] min)
qed

text \<open>
  C12. The viewer's role is that of one of the viewer's own member rows, and, since the
  query returns the members sorted by role, the most privileged of them: no member row of
  the viewer has a role before it in the order ADMIN, MODERATOR, GUEST.
\<close>

theorem viewer_role_least:
  assumes "sorted (map member_role (server_members s))"
    and "viewer_role p s = Some r"
  shows "(\<exists>m \<in> set (server_members s). member_profileId m = profile_id p \<and> member_role m = r) \<and>
    (\<forall>m \<in> set (server_members s). member_profileId m = profile_id p \<longrightarrow> r \<le> member_role m)"
proof -
  from assms(2) obtain m0 where
    m0: "find (\<lambda>m. member_profileId m = profile_id p) (server_members s) = Some m0"
    and r: "r = member_role m0"
    by (auto simp: viewer_role_def)
  have "r \<le> member_role m"
    if "m \<in> set (server_members s)" and "member_profileId m = profile_id p" for m
    using find_sorted_least [OF assms(1) m0 that] r by simp
  with viewer_role_Some [OF assms(2)] show ?thesis by blast
qed

end
