(* ===== verification/Icons.thy ===== *)
theory Icons
  imports Schema
begin

text \<open>
  The two icon tables of \<open>server-sidebar.tsx\<close> (lines 29--43): \<open>iconMap\<close> from a
  channel type to its \<open>lucide-react\<close> icon, and \<open>roleIconMap\<close> from a member role
  to its shield icon, \<open>null\<close> for a guest. An icon is named by its component; the
  CSS classes of the JSX elements are presentation only and are not modelled.
\<close>

datatype icon = Hash | Mic | Video | PenLine | ListTodo | ShieldAlert | ShieldCheck

fun iconMap :: "channel_type \<Rightarrow> icon" where
  "iconMap TEXT = Hash"
| "iconMap AUDIO = Mic"
| "iconMap VIDEO = Video"
| "iconMap SLATE = PenLine"
| "iconMap TODO = ListTodo"

fun roleIconMap :: "member_role \<Rightarrow> icon option" where
  "roleIconMap ADMIN = Some ShieldAlert"
| "roleIconMap MODERATOR = Some ShieldCheck"
| "roleIconMap GUEST = None"

text \<open>Reading a type or a role back from its icon; a member without an icon is a guest.\<close>

fun icon_channel_type :: "icon \<Rightarrow> channel_type option" where
  "icon_channel_type Hash = Some TEXT"
| "icon_channel_type Mic = Some AUDIO"
| "icon_channel_type Video = Some VIDEO"
| "icon_channel_type PenLine = Some SLATE"
| "icon_channel_type ListTodo = Some TODO"
| "icon_channel_type _ = None"

fun icon_role :: "icon option \<Rightarrow> member_role option" where
  "icon_role (Some ShieldAlert) = Some ADMIN"
| "icon_role (Some ShieldCheck) = Some MODERATOR"
| "icon_role None = Some GUEST"
| "icon_role _ = None"

lemma iconMap_inj: "iconMap t = iconMap u \<longleftrightarrow> t = u"
  by (cases t; cases u) simp_all

lemma roleIconMap_None_iff: "roleIconMap r = None \<longleftrightarrow> r = GUEST"
  by (cases r) simp_all

lemma iconMap_not_shield: "iconMap t \<notin> {ShieldAlert, ShieldCheck}"
  by (cases t) simp_all

lemma iconMap_decode [simp]: "icon_channel_type (iconMap t) = Some t"
  by (cases t) simp_all

lemma roleIconMap_decode [simp]: "icon_role (roleIconMap r) = Some r"
  by (cases r) simp_all

end
