(* ===== verification/Search.thy ===== *)
theory Search
  imports Partition Icons
begin

text \<open>
  The search index handed to \<open>ServerSearch\<close> (\<open>server-sidebar.tsx\<close>, lines
  109--166): six groups in a fixed order, five of channels (one per channel group) and
  one of the members without the viewer; each entry carries the id, the display name and
  the icon of its type or role. The lemmas show what the index holds: every channel of
  the server once, under its own group and with its type's icon, and every member but
  the viewer, with the member's profile name.
\<close>

datatype search_type = ChannelSearch | MemberSearch
  \<comment> \<open>the string literal types \<open>"channel"\<close> and \<open>"member"\<close>\<close>

record search_item =
  item_id :: ident
  item_name :: string
  item_icon :: "icon option"

record search_group =
  group_label :: string
  group_type :: search_type
  group_data :: "search_item list"

definition channel_item :: "channel \<Rightarrow> search_item" where
  "channel_item c =
     \<lparr>item_id = channel_id c, item_name = channel_name c, item_icon = Some (iconMap (channel_type c))\<rparr>"

definition member_item :: "member \<Rightarrow> search_item" where
  "member_item m =
     \<lparr>item_id = member_id m, item_name = profile_name (member_profile m),
      item_icon = roleIconMap (member_role m)\<rparr>"

definition search_data ::
  "channel list \<Rightarrow> channel list \<Rightarrow> channel list \<Rightarrow> channel list \<Rightarrow> channel list \<Rightarrow>
   member list \<Rightarrow> search_group list" where
  "search_data text audio video slate todo members =
     [\<lparr>group_label = ''Text Channel'', group_type = ChannelSearch, group_data = map channel_item text\<rparr>,
      \<lparr>group_label = ''Voice Channel'', group_type = ChannelSearch, group_data = map channel_item audio\<rparr>,
      \<lparr>group_label = ''Video Channel'', group_type = ChannelSearch, group_data = map channel_item video\<rparr>,
      \<lparr>group_label = ''Visualization Channel'', group_type = ChannelSearch,
       group_data = map channel_item slate\<rparr>,
      \<lparr>group_label = ''Todo Channel'', group_type = ChannelSearch, group_data = map channel_item todo\<rparr>,
      \<lparr>group_label = ''Members'', group_type = MemberSearch, group_data = map member_item members\<rparr>]"

text \<open>The index as the sidebar builds it from a server and the viewer.\<close>

definition server_search_data :: "profile \<Rightarrow> server \<Rightarrow> search_group list" where
  "server_search_data p s =
     search_data (textChannels s) (audioChannels s) (videoChannels s) (slateChannels s)
       (todoChannels s) (other_members p s)"

definition channel_entries :: "search_group list \<Rightarrow> search_item list" where
  "channel_entries gs = concat (map group_data (filter (\<lambda>g. group_type g = ChannelSearch) gs))"

definition member_entries :: "search_group list \<Rightarrow> search_item list" where
  "member_entries gs = concat (map group_data (filter (\<lambda>g. group_type g = MemberSearch) gs))"

lemma channel_entries_server_search_data:
  "channel_entries (server_search_data p s) =
   map channel_item (textChannels s @ audioChannels s @ videoChannels s @ slateChannels s @ todoChannels s)"
  by (simp add: channel_entries_def server_search_data_def search_data_def)

lemma member_entries_server_search_data:
  "member_entries (server_search_data p s) = map member_item (other_members p s)"
  by (simp add: member_entries_def server_search_data_def search_data_def)

text \<open>
  C13. The channel groups of the search index hold every channel of the server exactly
  once, each entry with the channel's id, name and the icon of its type.
\<close>

theorem search_index_channels:
  "mset (channel_entries (server_search_data p s)) = mset (map channel_item (server_channels s))"
  using mset_channel_groups [of s]
  by (simp only: channel_entries_server_search_data mset_map flip: concat_channel_groups)

text \<open>
  C14. The member group of the search index lists every member of the server except the
  viewer, in the query's order, by member id and profile name, with an icon exactly for
  admins and moderators.
\<close>

theorem search_index_members:
  "map (\<lambda>e. (item_id e, item_name e, item_icon e = None)) (member_entries (server_search_data p s)) =
   map (\<lambda>m. (member_id m, profile_name (member_profile m), member_role m = GUEST))
     (filter (\<lambda>m. member_profileId m \<noteq> profile_id p) (server_members s))"
  by (simp add: member_entries_server_search_data other_members_def member_item_def
                roleIconMap_None_iff)

text \<open>
  C26. Round trip: the icons in the search index encode the entries' types and roles
  without loss: decoding the icon of every channel entry gives back its channel's type,
  and decoding the icon (or its absence) of every member entry gives back the member's
  role.
\<close>

theorem search_icons_roundtrip:
  "map (\<lambda>e. case item_icon e of None \<Rightarrow> None | Some i \<Rightarrow> icon_channel_type i)
     (channel_entries (server_search_data p s)) =
   map (Some \<circ> channel_type)
     (textChannels s @ audioChannels s @ videoChannels s @ slateChannels s @ todoChannels s) \<and>
   map (\<lambda>e. icon_role (item_icon e)) (member_entries (server_search_data p s)) =
   map (Some \<circ> member_role) (other_members p s)"
  by (simp add: channel_entries_server_search_data member_entries_server_search_data
                channel_item_def member_item_def comp_def)
end
