(* ===== verification/Render.thy ===== *)
theory Render
  imports Search
begin

text \<open>
  The JSX tree \<open>ServerSidebar\<close> returns (\<open>server-sidebar.tsx\<close>, lines 104--303), as a
  tree of the child components with the props the code passes them: the header, the
  scroll area holding the search box, the separator, the four plain channel sections,
  the TODO section with its progress widget, and the member section. A section is
  rendered only when its list is non-empty (\<open>!!list?.length && ...\<close>); React
  renders the \<open>false\<close> of a failed \<open>&&\<close> as nothing, so a skipped section is the
  empty list of children. An optional prop the code omits (\<open>isTodo\<close>,
  \<open>server\<close> of \<open>ServerSection\<close>) is \<^const>\<open>None\<close>. Class names are presentation
  only and are not modelled; the \<open>key\<close> of a row is its channel's or member's id,
  which \<open>Keys\<close> reads off the tree.
\<close>

datatype section_type = SectionChannels | SectionMembers
  \<comment> \<open>the \<open>sectionType\<close> prop, \<open>"channels"\<close> or \<open>"members"\<close>\<close>

datatype element =
    Div "element list"
  | ScrollArea "element list"
  | ServerHeader server "member_role option"
  | ServerSearch "search_group list"
  | Separator
  | ServerSection section_type channel_type "member_role option" string "server option"
  | OverallProgress
  | ServerChannel channel "member_role option" server "bool option"
  | ServerMember member server

text \<open>Every node of a tree, in document order.\<close>

fun nodes :: "element \<Rightarrow> element list" where
  "nodes (Div es) = Div es # concat (map nodes es)"
| "nodes (ScrollArea es) = ScrollArea es # concat (map nodes es)"
| "nodes e = [e]"

text \<open>One of the four plain channel sections (lines 169--255).\<close>

definition channel_section ::
  "channel_type \<Rightarrow> string \<Rightarrow> member_role option \<Rightarrow> server \<Rightarrow> channel list \<Rightarrow> element list" where
  "channel_section t label role s chans =
     (if chans \<noteq> []
      then [Div [ServerSection SectionChannels t role label None,
                 Div (map (\<lambda>c. ServerChannel c role s None) chans)]]
      else [])"

text \<open>The TODO section (lines 257--282): the progress widget only for an admin or moderator.\<close>

definition todo_section :: "member_role option \<Rightarrow> server \<Rightarrow> channel list \<Rightarrow> element list" where
  "todo_section role s chans =
     (if chans \<noteq> []
      then [Div ([ServerSection SectionChannels TODO role ''Todo Channels'' None] @
                 (if role = Some ADMIN \<or> role = Some MODERATOR then [OverallProgress] else []) @
                 [Div (map (\<lambda>c. ServerChannel c role s (Some True)) chans)])]
      else [])"

text \<open>The member section (lines 284--300), passed \<open>channelType={ChannelType.VIDEO}\<close> as the code does.\<close>

definition member_section :: "member_role option \<Rightarrow> server \<Rightarrow> member list \<Rightarrow> element list" where
  "member_section role s ms =
     (if ms \<noteq> []
      then [Div [ServerSection SectionMembers VIDEO role ''Members'' (Some s),
                 Div (map (\<lambda>m. ServerMember m s) ms)]]
      else [])"

text \<open>The whole tree, from the server the query returned and the viewer (lines 77--303).\<close>

definition sidebar_view :: "profile \<Rightarrow> server \<Rightarrow> element" where
  "sidebar_view p s =
     (let text = textChannels s; audio = audioChannels s; video = videoChannels s;
          slate = slateChannels s; members = other_members p s; todo = todoChannels s;
          role = viewer_role p s
      in Div [ServerHeader s role,
              ScrollArea
                ([Div [ServerSearch (search_data text audio video slate todo members)], Separator] @
                 channel_section TEXT ''Text Channels'' role s text @
                 channel_section AUDIO ''Voice Channels'' role s audio @
                 channel_section VIDEO ''Video Channels'' role s video @
                 channel_section SLATE ''Visualisation Channels'' role s slate @
                 todo_section role s todo @
                 member_section role s members)])"

declare channel_section_def [view_defs] todo_section_def [view_defs]
  member_section_def [view_defs] sidebar_view_def [view_defs]

subsection \<open>Reading a rendered tree\<close>

text \<open>
  What a user sees in a tree: \<open>collect g\<close> gathers \<open>g\<close> of every node in
  document order; the readers below pick the member rows, the channel rows with their
  \<open>isTodo\<close> flag, the channel types of the section headings, and each channel
  section with the rows under its heading.
\<close>

fun collect :: "(element \<Rightarrow> 'a list) \<Rightarrow> element \<Rightarrow> 'a list" where
  "collect g (Div es) = g (Div es) @ concat (map (collect g) es)"
| "collect g (ScrollArea es) = g (ScrollArea es) @ concat (map (collect g) es)"
| "collect g e = g e"

fun row_member :: "element \<Rightarrow> member list" where
  "row_member (ServerMember m _) = [m]"
| "row_member _ = []"

fun row_channel :: "element \<Rightarrow> (channel \<times> bool option) list" where
  "row_channel (ServerChannel c _ _ f) = [(c, f)]"
| "row_channel _ = []"

fun section_heading :: "element \<Rightarrow> channel_type list" where
  "section_heading (ServerSection SectionChannels t _ _ _) = [t]"
| "section_heading _ = []"

fun is_progress :: "element \<Rightarrow> unit list" where
  "is_progress OverallProgress = [()]"
| "is_progress _ = []"

fun search_node :: "element \<Rightarrow> search_group list list" where
  "search_node (ServerSearch gs) = [gs]"
| "search_node _ = []"

fun role_props :: "element \<Rightarrow> member_role option list" where
  "role_props (ServerHeader _ r) = [r]"
| "role_props (ServerSection _ _ r _ _) = [r]"
| "role_props (ServerChannel _ r _ _) = [r]"
| "role_props _ = []"

fun server_props :: "element \<Rightarrow> server list" where
  "server_props (ServerHeader s _) = [s]"
| "server_props (ServerSection _ _ _ _ (Some s)) = [s]"
| "server_props (ServerChannel _ _ s _) = [s]"
| "server_props (ServerMember _ s) = [s]"
| "server_props _ = []"

fun section_block :: "element \<Rightarrow> (channel_type \<times> channel list) list" where
  "section_block (Div (ServerSection SectionChannels t _ _ _ # rest)) =
     [(t, map fst (concat (map (collect row_channel) rest)))]"
| "section_block _ = []"

definition member_rows :: "element \<Rightarrow> member list" where
  "member_rows v = collect row_member v"

definition channel_rows :: "element \<Rightarrow> (channel \<times> bool option) list" where
  "channel_rows v = collect row_channel v"

definition section_types :: "element \<Rightarrow> channel_type list" where
  "section_types v = collect section_heading v"

definition shows_progress :: "element \<Rightarrow> bool" where
  "shows_progress v \<longleftrightarrow> collect is_progress v \<noteq> []"

definition section_contents :: "element \<Rightarrow> (channel_type \<times> channel list) list" where
  "section_contents v = collect section_block v"

text \<open>
  The typing of a rendered tree: a channel section holds only rows of its heading's
  type, flagged \<open>isTodo\<close> exactly under the TODO heading, and no member rows; only
  the TODO section holds a progress widget; the member section, which carries its
  \<open>server\<close> prop, holds only member rows; no other heading shape occurs.
\<close>

fun wt_block :: "element \<Rightarrow> bool" where
  "wt_block (Div (ServerSection SectionChannels t _ _ None # rest)) =
     ((\<forall>(c, f) \<in> set (concat (map (collect row_channel) rest)).
         channel_type c = t \<and> f = (if t = TODO then Some True else None)) \<and>
      concat (map (collect row_member) rest) = [] \<and>
      (concat (map (collect is_progress) rest) \<noteq> [] \<longrightarrow> t = TODO))"
| "wt_block (Div (ServerSection SectionMembers _ _ _ (Some _) # rest)) =
     (concat (map (collect row_channel) rest) = [] \<and> concat (map (collect is_progress) rest) = [])"
| "wt_block (Div (ServerSection _ _ _ _ _ # rest)) = False"
| "wt_block _ = True"

definition wt_view :: "element \<Rightarrow> bool" where
  "wt_view v \<longleftrightarrow> list_all wt_block (nodes v)"

lemma collect_nodes: "collect g v = concat (map g (nodes v))"
proof (induction g v rule: collect.induct)
  case (1 g es)
  then have "map (collect g) es = map (\<lambda>x. concat (map g (nodes x))) es"
    by (intro map_cong) auto
  then show ?case by (simp del: map_eq_conv add: map_concat comp_def concat_concat_eq)
next
  case (2 g es)
  then have "map (collect g) es = map (\<lambda>x. concat (map g (nodes x))) es"
    by (intro map_cong) auto
  then show ?case by (simp del: map_eq_conv add: map_concat comp_def concat_concat_eq)
qed simp_all

lemma section_block_rows [simp]:
  "section_block (Div (map (\<lambda>c. ServerChannel c r s f) cs)) = []"
  "section_block (Div (map (\<lambda>m. ServerMember m s) ms)) = []"
  by (cases cs; simp) (cases ms; simp)

lemma member_rows_view: "member_rows (sidebar_view p s) = other_members p s"
  by (simp add: member_rows_def view_defs Let_def comp_def)

lemma channel_rows_view: "channel_rows (sidebar_view p s) =
   map (\<lambda>c. (c, None)) (textChannels s @ audioChannels s @ videoChannels s @ slateChannels s) @
   map (\<lambda>c. (c, Some True)) (todoChannels s)"
  by (simp add: channel_rows_def view_defs Let_def comp_def)

lemma section_types_view: "section_types (sidebar_view p s) =
   filter (\<lambda>t. channel_group t s \<noteq> []) section_order"
  by (simp add: section_types_def view_defs Let_def comp_def section_order_def)

lemma shows_progress_view: "shows_progress (sidebar_view p s) \<longleftrightarrow>
   (viewer_role p s = Some ADMIN \<or> viewer_role p s = Some MODERATOR) \<and> todoChannels s \<noteq> []"
  by (auto simp: shows_progress_def view_defs Let_def comp_def)

lemma section_contents_view: "section_contents (sidebar_view p s) =
   map (\<lambda>t. (t, channel_group t s)) (filter (\<lambda>t. channel_group t s \<noteq> []) section_order)"
  by (simp add: section_contents_def view_defs Let_def comp_def section_order_def)

lemma search_node_view:
  "collect search_node (sidebar_view p s) = [server_search_data p s]"
  by (simp add: view_defs Let_def comp_def server_search_data_def)

lemma member_in_nodes_iff:
  "(\<exists>srv. ServerMember m srv \<in> set (nodes v)) \<longleftrightarrow> m \<in> set (member_rows v)"
proof -
  have "m \<in> set (row_member e) \<longleftrightarrow> (\<exists>srv. e = ServerMember m srv)" for e
    by (cases e) auto
  then show ?thesis by (auto simp: member_rows_def collect_nodes)
qed

lemma progress_in_nodes_iff:
  "OverallProgress \<in> set (nodes v) \<longleftrightarrow> shows_progress v"
proof -
  have "is_progress e \<noteq> [] \<longleftrightarrow> e = OverallProgress" for e
    by (cases e) auto
  then show ?thesis by (auto simp: shows_progress_def collect_nodes)
qed

lemma channel_row_flag: "map (\<lambda>c. (c, if channel_type c = TODO then Some True else None)) (channel_group t s) =
             map (\<lambda>c. (c, if t = TODO then Some True else None)) (channel_group t s)"
    unfolding channel_group_filter by (rule map_filter_cong) simp

text \<open>
  C4. The rendered member list is everyone of the server except the viewer: a member
  appears as a \<open>ServerMember\<close> row exactly when it is a member of the server whose
  profile is not the viewer's (so a server whose only member is the viewer shows no
  member row at all).
\<close>

theorem sidebar_view_members:
  "(\<exists>srv. ServerMember m srv \<in> set (nodes (sidebar_view p s))) \<longleftrightarrow>
   m \<in> set (server_members s) \<and> member_profileId m \<noteq> profile_id p"
  by (simp add: member_in_nodes_iff member_rows_view set_other_members)

text \<open>
  C5. The aggregate progress widget is rendered exactly when the viewer is an admin or a
  moderator of the server and the server has a TODO channel.
\<close>

theorem sidebar_view_progress:
  "OverallProgress \<in> set (nodes (sidebar_view p s)) \<longleftrightarrow>
   (viewer_role p s = Some ADMIN \<or> viewer_role p s = Some MODERATOR) \<and>
   (\<exists>c \<in> set (server_channels s). channel_type c = TODO)"
  using channel_group_nonempty_iff [of TODO s]
  by (simp add: progress_in_nodes_iff shows_progress_view)

text \<open>
  C6. The channel sections appear in the fixed order TEXT, AUDIO, VIDEO, SLATE, TODO,
  one for each type the server has a channel of, whatever order the query returned.
\<close>

theorem sidebar_view_section_order:
  "section_types (sidebar_view p s) =
   filter (\<lambda>t. \<exists>c \<in> set (server_channels s). channel_type c = t) [TEXT, AUDIO, VIDEO, SLATE, TODO]"
  by (simp add: section_types_view channel_group_nonempty_iff section_order_def)

text \<open>
  C8. Every channel of the server is rendered as exactly one channel row, and the row
  carries \<open>isTodo\<close> exactly when the channel is a TODO channel.
\<close>

theorem sidebar_view_channel_rows:
  "mset (channel_rows (sidebar_view p s)) =
   mset (map (\<lambda>c. (c, if channel_type c = TODO then Some True else None)) (server_channels s))"
proof -
  let ?f = "\<lambda>c. (c, if channel_type c = TODO then Some True else None)"
  have "channel_rows (sidebar_view p s) = map ?f (concat (map (\<lambda>t. channel_group t s) section_order))"
    by (simp only: map_concat map_map comp_def channel_row_flag) (simp add: channel_rows_view section_order_def)
  also have "mset \<dots> = image_mset ?f (mset (concat (map (\<lambda>t. channel_group t s) section_order)))"
    by (rule mset_map)
  also have "\<dots> = image_mset ?f (mset (server_channels s))"
    by (simp only: mset_channel_groups)
  finally show ?thesis by simp
qed
text \<open>
  C15. Every child that takes the \<open>role\<close> prop (header, section headings, channel rows)
  is given the viewer's role, and every child that takes a \<open>server\<close> prop is given the
  server the query returned.
\<close>

theorem sidebar_view_props:
  "set (collect role_props (sidebar_view p s)) \<subseteq> {viewer_role p s} \<and>
   set (collect server_props (sidebar_view p s)) \<subseteq> {s}"
  by (auto simp: view_defs Let_def comp_def)

text \<open>
  C16. The specification's example: a server whose channels are two TEXT channels and one
  AUDIO channel shows exactly a TEXT section with those two channels, in the query's
  order, and an AUDIO section with the third, and no other channel section.
\<close>

theorem sidebar_view_text_text_audio:
  assumes "server_channels s = [a, b, c]"
    and "channel_type a = TEXT" and "channel_type b = TEXT" and "channel_type c = AUDIO"
  shows "section_contents (sidebar_view p s) = [(TEXT, [a, b]), (AUDIO, [c])]"
  using assms
  by (simp add: section_contents_view section_order_def channel_groups_defs)

lemma wt_block_rows [simp]:
  "wt_block (Div (map (\<lambda>c. ServerChannel c r s f) cs))"
  "wt_block (Div (map (\<lambda>m. ServerMember m s) ms))"
  by (cases cs; simp) (cases ms; simp)

lemma wt_channel_section:
  "(\<forall>c \<in> set cs. channel_type c = t) \<Longrightarrow> t \<noteq> TODO \<Longrightarrow>
   list_all wt_block (concat (map nodes (channel_section t l r s cs)))"
  by (auto simp: channel_section_def list_all_iff comp_def)

lemma wt_todo_section:
  "(\<forall>c \<in> set cs. channel_type c = TODO) \<Longrightarrow>
   list_all wt_block (concat (map nodes (todo_section r s cs)))"
  by (auto simp: todo_section_def list_all_iff comp_def)

lemma wt_member_section:
  "list_all wt_block (concat (map nodes (member_section r s ms)))"
  by (auto simp: member_section_def list_all_iff comp_def)

lemma length_nodes_view:
  "length (nodes (sidebar_view p s)) =
     6 + (\<Sum>t \<leftarrow> section_order. if channel_group t s \<noteq> [] then 3 + length (channel_group t s) else 0) +
     (if todoChannels s \<noteq> [] \<and> (viewer_role p s = Some ADMIN \<or> viewer_role p s = Some MODERATOR) then 1 else 0) +
     (if other_members p s \<noteq> [] then 3 + length (other_members p s) else 0)"
  by (simp add: view_defs Let_def comp_def section_order_def)

text \<open>
  C22. The rendered sidebar is well typed in the sense of \<^const>\<open>wt_view\<close>.
\<close>

theorem sidebar_view_well_typed: "wt_view (sidebar_view p s)"
  by (simp add: wt_view_def sidebar_view_def Let_def wt_channel_section wt_todo_section
                wt_member_section channel_groups_defs)

text \<open>
  C23. The rendered tree is linear in the data: at most 7 nodes plus 4 per channel and
  4 per member; in particular an empty channel group costs nothing.
\<close>

theorem sidebar_view_size:
  "length (nodes (sidebar_view p s)) \<le> 7 + 4 * length (server_channels s) + 4 * length (server_members s)"
proof -
  have sec: "(\<Sum>t \<leftarrow> section_order. if channel_group t s \<noteq> [] then 3 + length (channel_group t s) else 0)
           \<le> (\<Sum>t \<leftarrow> section_order. 4 * length (channel_group t s))"
    by (rule sum_list_mono) (auto simp: neq_Nil_conv)
  have "(\<Sum>t \<leftarrow> section_order. 4 * length (channel_group t s)) =
        4 * length (concat (map (\<lambda>t. channel_group t s) section_order))"
    by (simp add: length_concat sum_list_const_mult comp_def)
  also have "\<dots> = 4 * length (server_channels s)"
    using mset_channel_groups [of s] by (metis size_mset)
  finally have chans: "(\<Sum>t \<leftarrow> section_order. 4 * length (channel_group t s)) = 4 * length (server_channels s)" .
  have mem: "(if other_members p s \<noteq> [] then 3 + length (other_members p s) else 0) \<le>
             4 * length (server_members s)"
  proof -
    have "length (other_members p s) \<le> length (server_members s)"
      by (simp add: other_members_def)
    then show ?thesis by (auto simp: neq_Nil_conv)
  qed
  have prog: "(if todoChannels s \<noteq> [] \<and> (viewer_role p s = Some ADMIN \<or> viewer_role p s = Some MODERATOR)
               then 1 else 0) \<le> (1::nat)"
    by simp
  show ?thesis
    unfolding length_nodes_view using sec chans mem prog by linarith
qed

text \<open>
  C24. Boundary: a server with no channels whose only members are the viewer's renders
  just the header, the search box (six empty groups) and the separator.
\<close>

theorem sidebar_view_empty_server:
  assumes "server_channels s = []"
    and "\<forall>m \<in> set (server_members s). member_profileId m = profile_id p"
  shows "sidebar_view p s =
    Div [ServerHeader s (viewer_role p s),
         ScrollArea [Div [ServerSearch (search_data [] [] [] [] [] [])], Separator]]"
proof -
  have "other_members p s = []"
    using assms(2) by (simp add: other_members_def filter_empty_conv)
  then show ?thesis
    using assms(1)
    by (simp add: sidebar_view_def Let_def channel_groups_defs channel_section_def
                  todo_section_def member_section_def)
qed

text \<open>
  C25. The search box offers a channel group exactly for the sections the sidebar
  renders, type by type in the same order, with the same channels in the same order.
\<close>

theorem search_groups_match_sections:
  "map (\<lambda>(t, g). (t, map item_id (group_data g)))
     (filter (\<lambda>(t, g). group_data g \<noteq> []) (zip section_order (server_search_data p s))) =
   map (\<lambda>(t, cs). (t, map channel_id cs)) (section_contents (sidebar_view p s))"
  by (simp add: section_contents_view section_order_def server_search_data_def search_data_def
                channel_item_def comp_def)

end
