(* ===== verification/Sidebar.thy ===== *)
theory Sidebar
  imports Render
begin

text \<open>
  The server component \<open>ServerSidebar\<close> itself (\<open>server-sidebar.tsx\<close>, lines
  45--304): resolve the viewer (\<open>await currentProfile()\<close>, whose result is the
  argument \<open>profile\<close>: \<^const>\<open>None\<close> when nobody is signed in), redirect to
  \<open>"/"\<close> when there is none, run the query, redirect when it finds no server, and
  otherwise render \<^const>\<open>sidebar_view\<close>. Next's \<open>redirect\<close> throws, so a
  redirect ends the component before anything is rendered: here it is the left value
  \<open>Redirect ''/''\<close>. A query that Prisma rejects throws as well and reaches
  the error boundary: \<open>QueryFailed\<close>.
\<close>

datatype sidebar_error = Redirect string | QueryFailed query_error

definition server_sidebar :: "profile option \<Rightarrow> db \<Rightarrow> ident \<Rightarrow> sidebar_error + element" where
  "server_sidebar profile d serverId =
     (case profile of
        None \<Rightarrow> Inl (Redirect ''/'')
      | Some p \<Rightarrow>
          (case find_unique_server d serverId of
             Inl e \<Rightarrow> Inl (QueryFailed e)
           | Inr None \<Rightarrow> Inl (Redirect ''/'')
           | Inr (Some s) \<Rightarrow> Inr (sidebar_view p s)))"

lemma server_sidebar_Inr:
  "server_sidebar profile d sid = Inr v \<longleftrightarrow>
   (\<exists>p s. profile = Some p \<and> find_unique_server d sid = Inr (Some s) \<and> v = sidebar_view p s)"
  by (auto simp: server_sidebar_def split: option.splits sum.splits)

text \<open>
  C1. Without a signed-in viewer the sidebar redirects to the root path and renders
  nothing, whatever the database holds.
\<close>

theorem server_sidebar_no_profile:
  "server_sidebar None d sid = Inl (Redirect ''/'')"
  by (simp add: server_sidebar_def)

text \<open>
  C2. For a signed-in viewer the sidebar redirects to the root path exactly when no
  server has the requested identifier.
\<close>

theorem server_sidebar_redirect_iff:
  "server_sidebar (Some p) d sid = Inl (Redirect ''/'') \<longleftrightarrow>
   sid \<notin> set (map server_id (db_servers d))"
proof -
  have "server_sidebar (Some p) d sid = Inl (Redirect ''/'') \<longleftrightarrow>
        find_unique_server d sid = Inr None"
    by (auto simp: server_sidebar_def split: sum.splits option.splits)
  then show ?thesis by (simp add: find_unique_server_None_iff)
qed

text \<open>
  C11. On a well-formed database a signed-in viewer gets a rendered sidebar exactly for
  the identifiers of existing servers: the query error path is unreachable.
\<close>

theorem server_sidebar_wf_renders:
  assumes "db_wf d"
  shows "(\<exists>v. server_sidebar (Some p) d sid = Inr v) \<longleftrightarrow> sid \<in> set (map server_id (db_servers d))"
proof (cases "sid \<in> set (map server_id (db_servers d))")
  case True
  then obtain r where "find (\<lambda>s. server_id s = sid) (db_servers d) = Some r"
    by (cases "find (\<lambda>s. server_id s = sid) (db_servers d)") (auto simp: find_None_iff)
  with include_server_members_wf [OF assms, of sid] True show ?thesis
    by (auto simp: server_sidebar_def find_unique_server_def)
next
  case False
  then have "find_unique_server d sid = Inr None"
    by (simp add: find_unique_server_None_iff)
  with False show ?thesis by (simp add: server_sidebar_Inr)
qed

end
