(* ===== verification/Session.thy ===== *)
theory Session
  imports Sidebar
begin

text \<open>
  The viewer of the sidebar: \<open>currentProfile\<close> (\<open>lib/current-profile\<close>, called on
  line 46 of \<open>server-sidebar.tsx\<close>). It is not part of the sources, so it follows
  the specification's contract, "an identity resolver returning the current viewer or
  nothing": the session of the request carries the signed-in user's id, or none, and
  the viewer is the profile with that user id. \<open>server_sidebar_page\<close> is the component
  as a request runs it, the profile resolved from the session and handed to the rest of
  \<open>ServerSidebar\<close>.
\<close>

record session =
  session_userId :: "ident option"

definition currentProfile :: "session \<Rightarrow> db \<Rightarrow> profile option" where
  "currentProfile ses d =
     (case session_userId ses of
        None \<Rightarrow> None
      | Some u \<Rightarrow> find (\<lambda>p. profile_userId p = u) (db_profiles d))"

definition server_sidebar_page :: "session \<Rightarrow> db \<Rightarrow> ident \<Rightarrow> sidebar_error + element" where
  "server_sidebar_page ses d serverId = server_sidebar (currentProfile ses d) d serverId"

lemma currentProfile_Some:
  "currentProfile ses d = Some p \<Longrightarrow>
   p \<in> set (db_profiles d) \<and> session_userId ses = Some (profile_userId p)"
  by (auto simp: currentProfile_def split: option.splits dest!: find_Some_in_set)

lemma currentProfile_correct:
  assumes "db_wf d"
  shows "currentProfile ses d = Some p \<longleftrightarrow>
    (\<exists>u. session_userId ses = Some u \<and> p \<in> set (db_profiles d) \<and> profile_userId p = u)"
proof
  assume "currentProfile ses d = Some p"
  then show "\<exists>u. session_userId ses = Some u \<and> p \<in> set (db_profiles d) \<and> profile_userId p = u"
    by (auto dest: currentProfile_Some)
next
  assume "\<exists>u. session_userId ses = Some u \<and> p \<in> set (db_profiles d) \<and> profile_userId p = u"
  then obtain u where u: "session_userId ses = Some u" and p: "p \<in> set (db_profiles d)"
    and pu: "profile_userId p = u" by blast
  have dist: "distinct (map profile_userId (db_profiles d))"
    using assms by (simp add: db_wf_def)
  from p pu obtain q where q: "find (\<lambda>p. profile_userId p = u) (db_profiles d) = Some q"
    by (cases "find (\<lambda>p. profile_userId p = u) (db_profiles d)") (auto simp: find_None_iff)
  from find_Some_in_set [OF q] have "q \<in> set (db_profiles d)" and "profile_userId q = u"
    by auto
  with p pu dist have "q = p"
    by (metis distinct_map inj_onD)
  with u q show "currentProfile ses d = Some p"
    by (simp add: currentProfile_def)
qed

text \<open>
  C19. On a database whose user ids are unique, a request of a signed-in user who has a
  profile row renders the sidebar for exactly that profile.
\<close>

theorem server_sidebar_page_viewer:
  assumes "db_wf d" and "p \<in> set (db_profiles d)"
    and "session_userId ses = Some (profile_userId p)"
  shows "server_sidebar_page ses d sid = server_sidebar (Some p) d sid"
  using currentProfile_correct [OF assms(1), of ses p] assms(2,3)
  by (simp add: server_sidebar_page_def)

end
