(* ===== verification/Request.thy ===== *)
theory Request
  imports Session "HOL-Library.State_Monad"
begin

text \<open>
  The request that runs \<open>ServerSidebar\<close>, with its effects in the order the code
  performs them (\<open>server-sidebar.tsx\<close>, lines 25--75). The component receives its
  props (\<open>ServerSidebarProps\<close>), awaits \<open>currentProfile()\<close>, calls Next's
  \<open>redirect\<close> or awaits \<open>db.server.findUnique\<close>, and redirects once more when no
  server is found. The request state is the session, the database and the log of the
  effects performed so far; actions are programs of \<^theory_text>\<open>HOL-Library.State_Monad\<close>
  whose value is \<open>sidebar_error + 'a\<close>. \<open>redirect\<close> throws in Next.js: the action
  \<open>redirect_act\<close> logs the navigation and returns a left value, and
  \<open>bindE\<close> does not run what follows a left value, so nothing after a redirect
  happens. A rejected query throws too (\<open>QueryFailed\<close>).
\<close>

record server_sidebar_props =
  serverId :: ident

datatype effect = ResolveProfile | FindUniqueServer ident | Navigate string

record request =
  req_session :: session
  req_db :: db
  req_log :: "effect list"

type_synonym 'a action = "(request, sidebar_error + 'a) state"

definition emit :: "effect \<Rightarrow> (request, unit) state" where
  "emit e = State_Monad.update (\<lambda>r. r\<lparr>req_log := req_log r @ [e]\<rparr>)"

definition returnE :: "'a \<Rightarrow> 'a action" where
  "returnE x = State_Monad.return (Inr x)"

definition bindE :: "'a action \<Rightarrow> ('a \<Rightarrow> 'b action) \<Rightarrow> 'b action" where
  "bindE m f = do {
     x \<leftarrow> m;
     (case x of Inl e \<Rightarrow> State_Monad.return (Inl e) | Inr a \<Rightarrow> f a)
   }"

definition current_profile_act :: "profile option action" where
  "current_profile_act = do {
     emit ResolveProfile;
     r \<leftarrow> State_Monad.get;
     returnE (currentProfile (req_session r) (req_db r))
   }"

definition find_unique_act :: "ident \<Rightarrow> server option action" where
  "find_unique_act sid = do {
     emit (FindUniqueServer sid);
     r \<leftarrow> State_Monad.get;
     State_Monad.return (case find_unique_server (req_db r) sid of
                           Inl e \<Rightarrow> Inl (QueryFailed e)
                         | Inr s \<Rightarrow> Inr s)
   }"

definition redirect_act :: "string \<Rightarrow> 'a action" where
  "redirect_act path = do {
     emit (Navigate path);
     State_Monad.return (Inl (Redirect path))
   }"

text \<open>The query effects of a log.\<close>

fun is_query :: "effect \<Rightarrow> bool" where
  "is_query (FindUniqueServer _) = True"
| "is_query _ = False"

definition ServerSidebar :: "server_sidebar_props \<Rightarrow> element action" where
  "ServerSidebar props =
     bindE current_profile_act (\<lambda>profile.
       case profile of
         None \<Rightarrow> redirect_act ''/''
       | Some p \<Rightarrow>
           bindE (find_unique_act (serverId props)) (\<lambda>server.
             case server of
               None \<Rightarrow> redirect_act ''/''
             | Some s \<Rightarrow> returnE (sidebar_view p s)))"

subsection \<open>Running the actions\<close>

lemma run_emit [simp]:
  "run_state (emit e) r = ((), r\<lparr>req_log := req_log r @ [e]\<rparr>)"
  by (simp add: emit_def State_Monad.update_def)

lemma run_returnE [simp]: "run_state (returnE x) r = (Inr x, r)"
  by (simp add: returnE_def)

lemma run_bindE:
  "run_state (bindE m f) r =
     (case run_state m r of
        (Inl e, r') \<Rightarrow> (Inl e, r')
      | (Inr a, r') \<Rightarrow> run_state (f a) r')"
  by (simp add: bindE_def split: prod.splits sum.splits)

lemma bindE_redirect [simp]: "bindE (redirect_act path) f = redirect_act path"
  by (rule state_ext) (simp add: run_bindE redirect_act_def)

lemma run_redirect [simp]:
  "run_state (redirect_act path) r = (Inl (Redirect path), r\<lparr>req_log := req_log r @ [Navigate path]\<rparr>)"
  by (simp add: redirect_act_def)

lemma run_current_profile [simp]:
  "run_state current_profile_act r =
     (Inr (currentProfile (req_session r) (req_db r)), r\<lparr>req_log := req_log r @ [ResolveProfile]\<rparr>)"
  by (simp add: current_profile_act_def)

lemma run_find_unique [simp]:
  "run_state (find_unique_act sid) r =
     (case find_unique_server (req_db r) sid of Inl e \<Rightarrow> Inl (QueryFailed e) | Inr s \<Rightarrow> Inr s,
      r\<lparr>req_log := req_log r @ [FindUniqueServer sid]\<rparr>)"
  by (simp add: find_unique_act_def)

text \<open>What a request does: its result and the effects it appends to the log.\<close>

lemma run_ServerSidebar:
  "run_state (ServerSidebar props) r =
     (server_sidebar_page (req_session r) (req_db r) (serverId props),
      r\<lparr>req_log := req_log r @ ResolveProfile #
         (case currentProfile (req_session r) (req_db r) of
            None \<Rightarrow> [Navigate ''/'']
          | Some p \<Rightarrow> FindUniqueServer (serverId props) #
              (if find_unique_server (req_db r) (serverId props) = Inr None
               then [Navigate ''/''] else []))\<rparr>)"
  by (auto simp: ServerSidebar_def run_bindE server_sidebar_page_def server_sidebar_def
           split: option.splits sum.splits)

text \<open>
  C27. The component renders only after exactly two effects, resolving the profile and
  running the query: a rendered sidebar is never preceded by a navigation, so there is
  no partial rendering on a failure path.
\<close>

theorem ServerSidebar_render_effects:
  assumes "run_state (ServerSidebar props) r = (Inr v, r')"
  shows "req_log r' = req_log r @ [ResolveProfile, FindUniqueServer (serverId props)]"
  using assms
  by (auto simp: run_ServerSidebar server_sidebar_page_def server_sidebar_def
           split: option.splits sum.splits if_splits)

text \<open>
  C28. Ordering of the awaits: a request first resolves the profile, and then runs the
  query at most once, exactly when a profile was found.
\<close>

theorem ServerSidebar_profile_before_query:
  assumes "run_state (ServerSidebar props) r = (res, r')"
  shows "\<exists>t. req_log r' = req_log r @ ResolveProfile # t \<and>
    filter is_query t =
      (if currentProfile (req_session r) (req_db r) = None then []
       else [FindUniqueServer (serverId props)])"
  using assms by (auto simp: run_ServerSidebar split: option.splits)

end
