(* ===== verification/Keys.thy ===== *)
theory Keys
  imports Sidebar
begin

text \<open>
  React's rule for lists of children: the siblings a \<open>.map\<close> produces carry a
  \<open>key\<close> prop, and keys are unique among siblings. The sidebar keys every
  \<open>ServerChannel\<close> row by \<open>channel.id\<close> and every \<open>ServerMember\<close> row by
  \<open>member.id\<close> (\<open>server-sidebar.tsx\<close>, \<open>key={channel.id}\<close> on lines 180, 203,
  225, 247 and 273, \<open>key={member.id}\<close> on line 296). \<open>child_key\<close> reads that key off a node,
  \<open>keys_unique\<close> says that the keyed children of every node of a tree are distinct,
  and the lemmas show that the sidebar meets it whenever the channel and member ids of
  the server are distinct, which the database's primary keys guarantee.
\<close>

fun child_key :: "element \<Rightarrow> ident option" where
  "child_key (ServerChannel c _ _ _) = Some (channel_id c)"
| "child_key (ServerMember m _) = Some (member_id m)"
| "child_key _ = None"

fun children :: "element \<Rightarrow> element list" where
  "children (Div es) = es"
| "children (ScrollArea es) = es"
| "children _ = []"

definition keys_unique :: "element \<Rightarrow> bool" where
  "keys_unique v \<longleftrightarrow> list_all (\<lambda>e. distinct (List.map_filter child_key (children e))) (nodes v)"

subsection \<open>Keys of the sections\<close>

abbreviation keyed_ok :: "element list \<Rightarrow> bool" where
  "keyed_ok es \<equiv> list_all (\<lambda>e. distinct (List.map_filter child_key (children e))) es"

lemma map_filter_child_key_rows [simp]:
  "List.map_filter child_key (map (\<lambda>c. ServerChannel c r s f) cs) = map channel_id cs"
  "List.map_filter child_key (map (\<lambda>m. ServerMember m s) ms) = map member_id ms"
  by (induction cs) (simp_all add: List.map_filter_simps, induction ms, simp_all add: List.map_filter_simps)

lemma keyed_channel_section:
  "distinct (map channel_id cs) \<Longrightarrow> keyed_ok (concat (map nodes (channel_section t l r s cs)))"
  by (auto simp: channel_section_def list_all_iff List.map_filter_simps)

lemma keyed_todo_section:
  "distinct (map channel_id cs) \<Longrightarrow> keyed_ok (concat (map nodes (todo_section r s cs)))"
  by (auto simp: todo_section_def list_all_iff List.map_filter_simps)

lemma keyed_member_section:
  "distinct (map member_id ms) \<Longrightarrow> keyed_ok (concat (map nodes (member_section r s ms)))"
  by (auto simp: member_section_def list_all_iff List.map_filter_simps)

lemma map_filter_child_key_sections [simp]:
  "List.map_filter child_key (channel_section t l r s cs) = []"
  "List.map_filter child_key (todo_section r s cs) = []"
  "List.map_filter child_key (member_section r s ms) = []"
  by (simp_all add: view_defs List.map_filter_simps)

lemma keys_unique_view:
  assumes "distinct (map channel_id (server_channels s))"
    and "distinct (map member_id (server_members s))"
  shows "keys_unique (sidebar_view p s)"
proof -
  have "distinct (map channel_id (filter P (server_channels s)))" for P
    using assms(1) by (simp add: distinct_map_filter)
  moreover have "distinct (map member_id (other_members p s))"
    using assms(2) by (simp add: other_members_def distinct_map_filter)
  ultimately show ?thesis
    by (simp add: keys_unique_def sidebar_view_def Let_def channel_groups_defs List.map_filter_simps
                  keyed_channel_section keyed_todo_section keyed_member_section)
qed

subsection \<open>The ids the query returns\<close>

lemma distinct_map_sort_key:
  "distinct (map f (sort_key k xs)) = distinct (map f xs)"
  by (rule mset_eq_imp_distinct_iff) simp

lemma find_unique_server_distinct_ids:
  assumes "db_wf d" and "find_unique_server d sid = Inr (Some s)"
  shows "distinct (map channel_id (server_channels s))"
    and "distinct (map member_id (server_members s))"
proof -
  have "map member_id (server_members s) = map member_id (map row_of (server_members s))"
    by (simp add: row_of_def)
  then show "distinct (map member_id (server_members s))"
    using assms find_unique_server_rows(3) [OF assms(2)]
    by (simp add: db_wf_def server_members_query_def distinct_map_sort_key distinct_map_filter)
  show "distinct (map channel_id (server_channels s))"
    using assms find_unique_server_rows(2) [OF assms(2)]
    by (simp add: db_wf_def server_channels_query_def distinct_map_sort_key distinct_map_filter)
qed

text \<open>
  C29. Every sidebar rendered from a well-formed database satisfies React's key rule:
  no two keyed siblings share a key.
\<close>

theorem server_sidebar_keys_unique:
  assumes "db_wf d" and "server_sidebar (Some p) d sid = Inr v"
  shows "keys_unique v"
proof -
  from assms(2) obtain s where q: "find_unique_server d sid = Inr (Some s)"
    and v: "v = sidebar_view p s"
    by (auto simp: server_sidebar_Inr)
  show ?thesis
    unfolding v by (rule keys_unique_view [OF find_unique_server_distinct_ids [OF assms(1) q]])
qed

end
