(* ===== verification/Spec2Isabelle.thy ===== *)
theory Spec2Isabelle
  imports Request Keys
begin

text \<open>
  \<^bold>\<open>A verification library for the CommUnityHub server sidebar.\<close>

  \<^bold>\<open>The program.\<close> \<open>src/components/server/server-sidebar.tsx\<close> is one async React
  server component, \<open>ServerSidebar\<close>. Given a server id it resolves the signed-in
  profile (\<open>currentProfile\<close>) and redirects to \<open>"/"\<close> if there is none. Then it reads
  the server with one Prisma query (\<open>db.server.findUnique\<close>, channels by \<open>createdAt\<close>,
  members with their profiles by \<open>role\<close>) and redirects if no server is found. Otherwise
  it splits the channels into five groups by type and filters the viewer out of the
  member list. It looks up the viewer's role and builds a search index, then renders
  the header, the search box, a section per non-empty channel group in the order
  TEXT, AUDIO, VIDEO, SLATE, TODO (the TODO section with a progress widget for admins
  and moderators only), and the member section.

  \<^bold>\<open>The theories, in import order.\<close>
  \<^item> \<open>Prelude\<close>: type names, the rule collections \<open>view_defs\<close> and
    \<open>query_simps\<close>, and generic facts on lists (partition by a key, \<^const>\<open>find\<close> on a
    sorted list, \<^const>\<open>those\<close>).
  \<^item> \<open>Schema\<close>: the Prisma enums and rows as datatypes and records. \<open>MemberRole\<close> is a
    \<open>linorder\<close> in declaration order. The database is four tables, with the referential
    integrity \<^const>\<open>db_wf\<close>. The Prisma schema is not under \<open>src/\<close>, so this part
    follows the specification's data model.
  \<^item> \<open>Query\<close>: \<^const>\<open>find_unique_server\<close> (lines 52--71). The orderings are stable
    sorts; every lemma uses only sortedness and the multiset of rows, which hold for any
    tie order the database picks. A member whose profile is missing is the query error
    \<open>InconsistentQuery\<close> (Prisma rejects a null required relation). The relation
    \<^const>\<open>query_admits\<close> says what Prisma promises for any tie order, and
    \<^const>\<open>find_unique_server\<close> is one result it admits.
  \<^item> \<open>Partition\<close>: \<^const>\<open>textChannels\<close> \<dots> \<^const>\<open>todoChannels\<close>,
    \<^const>\<open>other_members\<close> and \<^const>\<open>viewer_role\<close> (lines 77--101).
  \<^item> \<open>Icons\<close>: \<^const>\<open>iconMap\<close> and \<^const>\<open>roleIconMap\<close> (lines 29--43).
  \<^item> \<open>Search\<close>: the data passed to \<open>ServerSearch\<close>, \<^const>\<open>search_data\<close>
    (lines 109--166).
  \<^item> \<open>Render\<close>: the returned JSX as an \<^typ>\<open>element\<close> tree of the child components
    with their props (\<^const>\<open>sidebar_view\<close>, lines 104--303). It also has readers that
    take the rows, headings and widgets off a tree.
  \<^item> \<open>Sidebar\<close>: the whole component \<^const>\<open>server_sidebar\<close> (lines 45--304), given
    the viewer's profile. Each redirect is the value \<open>Inl (Redirect ''/'')\<close>, and a
    query failure is \<open>Inl (QueryFailed e)\<close>.
  \<^item> \<open>Session\<close>: \<^const>\<open>currentProfile\<close> (in \<open>lib/\<close>, not under \<open>src/\<close>, so
    modelled from the specification) as the lookup of the session user's profile by its
    \<open>userId\<close>, and the page \<^const>\<open>server_sidebar_page\<close> that composes it with
    \<^const>\<open>server_sidebar\<close> as line 46 does.
  \<^item> \<open>Request\<close>: the component as the request runs it (\<^const>\<open>ServerSidebar\<close>, props on
    lines 25--27, body on lines 45--304), a program of \<^theory_text>\<open>HOL-Library.State_Monad\<close> over the session, the
    database and a log of effects, with one action per await
    (\<^const>\<open>current_profile_act\<close>, \<^const>\<open>find_unique_act\<close>) and Next's
    \<open>redirect\<close> as \<^const>\<open>redirect_act\<close>, which logs the navigation and throws: the
    bind \<^const>\<open>bindE\<close> runs nothing after a left value.
  \<^item> \<open>Keys\<close>: React's key rule for the rendered rows (\<^const>\<open>child_key\<close>,
    \<^const>\<open>keys_unique\<close>).
  \<^item> this theory: an abstract specification \<open>sidebar_spec\<close> written from the
    spec's steps 4--9, the abstraction \<open>view_abs\<close> of a rendered tree, the
    refinement theorems, the equivalence \<open>abs_equiv\<close> of two views up to tie order,
    an example database, a database with ties, and the witnesses.

  \<^bold>\<open>What is proved.\<close> Error paths: no viewer, or no server, means a redirect and nothing
  rendered (C1, C2). The query fails exactly when the requested server has a member row
  whose profile is missing (C10), so on a well-formed database a signed-in viewer gets a
  sidebar exactly for existing servers (C11), and a signed-in user is shown the sidebar
  of their own profile (C19). Refinement: a rendered sidebar is exactly the
  specification's view of the server the query returned (C3), for every tie order the
  query admits (C20), so two admitted results show the same view up to the order of
  equal rows (C21). Render safety and functional behaviour: the viewer is never listed
  and everyone else is (C4). The progress widget shows exactly for admins and
  moderators with a TODO channel (C5). Sections come in the fixed order (C6). Every
  channel gets one row, flagged \<open>isTodo\<close> exactly when it is a TODO channel (C8).
  Every child gets the viewer's role and the queried server as props (C15). The
  specification's TEXT, TEXT, AUDIO example holds (C16). An empty server renders only
  the header and the search box (C24). Type: every section heading is followed by rows
  of its own kind, and the TODO rows alone carry \<open>isTodo\<close> (C22). Bounds: the tree
  has at most \<open>7 + 4 * (channels + members)\<close> nodes (C23). Partition: the five groups
  hold every channel once (C7). Query: the returned server is the requested one, with
  its channels and members sorted (C9). The viewer's role is the most privileged of the
  viewer's memberships (C12). Search: the index holds every channel once and every
  member but the viewer (C13, C14), and it agrees with the rendered rows (C17) and,
  group by group, with the rendered sections (C25). Each search entry's icon decodes
  back to the channel type or member role it stands for (C26). Rendered rows keep the
  query's order (C18). Effects of a request: a render follows exactly the profile
  lookup and one query, with no navigation before it (C27); the profile is resolved
  before the query, which runs at most once and only for a signed-in profile (C28).
  React keys: on a well-formed database the keyed siblings of every rendered node are
  distinct (C29). End to end, a signed-in user's rendered request shows the
  specification's view of an admitted query result for the user's own profile (C30).

  \<^bold>\<open>Not modelled.\<close> The session store behind \<open>currentProfile\<close> is a record with
  the signed-in user's id; authentication itself is outside the program. Next.js
  \<open>redirect\<close> is modelled by its contract (log the navigation, abort the rest); the HTTP
  response it produces is outside the component. The child components are opaque
  nodes that carry the props they are given: their bodies are separate files with
  their own state. CSS classes and icon styling are left out. Nothing here
  loops: every definition is structural recursion or a library list function, so no
  fuel, bound or termination argument is needed, and the component has no liveness
  property beyond returning, which totality of the HOL functions gives.
\<close>

section \<open>The sidebar against its specification\<close>

text \<open>
  The specification's view of a rendered sidebar: the viewer's role shown in the header,
  the channel sections as (type, channels) pairs in screen order, whether the progress
  widget shows, and the member rows. \<open>view_abs\<close> reads them off a rendered tree;
  \<open>sidebar_spec\<close> says what they must be, from the spec's steps 4--9 and not from
  the code: one section per non-empty type in the order TEXT, AUDIO, VIDEO, SLATE, TODO;
  the viewer's role is the most privileged role of the viewer's memberships; progress
  iff admin or moderator and a TODO channel exists; every member but the viewer.
\<close>

record sidebar_abs =
  abs_roles :: "member_role option list"
  abs_sections :: "(channel_type \<times> channel list) list"
  abs_progress :: bool
  abs_members :: "member list"

fun header_role :: "element \<Rightarrow> member_role option list" where
  "header_role (ServerHeader _ r) = [r]"
| "header_role _ = []"

definition view_abs :: "element \<Rightarrow> sidebar_abs" where
  "view_abs v =
     \<lparr>abs_roles = collect header_role v, abs_sections = section_contents v,
      abs_progress = shows_progress v, abs_members = member_rows v\<rparr>"

definition spec_role :: "profile \<Rightarrow> server \<Rightarrow> member_role option" where
  "spec_role p s =
     (let rs = map member_role (filter (\<lambda>m. member_profileId m = profile_id p) (server_members s))
      in if rs = [] then None else Some (Min (set rs)))"

definition sidebar_spec :: "profile \<Rightarrow> server \<Rightarrow> sidebar_abs" where
  "sidebar_spec p s =
     (let chans = server_channels s;
          present = (\<lambda>t. \<exists>c \<in> set chans. channel_type c = t)
      in \<lparr>abs_roles = [spec_role p s],
          abs_sections =
            map (\<lambda>t. (t, filter (\<lambda>c. channel_type c = t) chans))
              (filter present [TEXT, AUDIO, VIDEO, SLATE, TODO]),
          abs_progress = (spec_role p s \<in> {Some ADMIN, Some MODERATOR} \<and> present TODO),
          abs_members = filter (\<lambda>m. member_profileId m \<noteq> profile_id p) (server_members s)\<rparr>)"

text \<open>
  Two views agree up to the order of rows with equal sort keys when they show the same
  role, the same sections with the same channels in each, the same progress widget and
  the same members.
\<close>

definition abs_equiv :: "sidebar_abs \<Rightarrow> sidebar_abs \<Rightarrow> bool" where
  "abs_equiv a b \<longleftrightarrow>
     abs_roles a = abs_roles b \<and>
     map fst (abs_sections a) = map fst (abs_sections b) \<and>
     list_all2 (\<lambda>x y. mset (snd x) = mset (snd y)) (abs_sections a) (abs_sections b) \<and>
     abs_progress a = abs_progress b \<and>
     mset (abs_members a) = mset (abs_members b)"

subsection \<open>An example database\<close>

text \<open>
  A server \<open>s1\<close> with two TEXT channels, an AUDIO and a TODO channel stored out of
  creation order, and three members: Bob an admin, and Alice twice, as a guest and as a
  moderator. The witnesses below run the component on it.
\<close>

definition alice :: profile where "alice = \<lparr>profile_id = ''p1'', profile_userId = ''u1'', profile_name = ''Alice''\<rparr>"
definition bob :: profile where "bob = \<lparr>profile_id = ''p2'', profile_userId = ''u2'', profile_name = ''Bob''\<rparr>"

definition example_channel :: "ident \<Rightarrow> channel_type \<Rightarrow> timestamp \<Rightarrow> channel" where
  "example_channel i t at =
     \<lparr>channel_id = i, channel_name = i, channel_type = t, channel_profileId = ''p2'',
      channel_serverId = ''s1'', channel_createdAt = at\<rparr>"

definition example_row :: "ident \<Rightarrow> member_role \<Rightarrow> profile \<Rightarrow> member_row" where
  "example_row i r p =
     \<lparr>member_id = i, member_role = r, member_profileId = profile_id p, member_serverId = ''s1''\<rparr>"

definition example_member :: "ident \<Rightarrow> member_role \<Rightarrow> profile \<Rightarrow> member" where
  "example_member i r p =
     \<lparr>member_id = i, member_role = r, member_profileId = profile_id p, member_serverId = ''s1'',
      member_profile = p\<rparr>"

definition example_db :: db where
  "example_db =
     \<lparr>db_profiles = [alice, bob],
      db_servers = [\<lparr>server_id = ''s1'', server_name = ''Hub''\<rparr>],
      db_channels =
        [example_channel ''c1'' TEXT 3, example_channel ''c2'' AUDIO 1,
         example_channel ''c3'' TEXT 2, example_channel ''c4'' TODO 4],
      db_members =
        [example_row ''m1'' GUEST alice, example_row ''m2'' ADMIN bob,
         example_row ''m3'' MODERATOR alice]\<rparr>"

definition example_server :: server where
  "example_server =
     \<lparr>server_id = ''s1'', server_name = ''Hub'',
      server_channels =
        [example_channel ''c2'' AUDIO 1, example_channel ''c3'' TEXT 2,
         example_channel ''c1'' TEXT 3, example_channel ''c4'' TODO 4],
      server_members =
        [example_member ''m2'' ADMIN bob, example_member ''m3'' MODERATOR alice,
         example_member ''m1'' GUEST alice]\<rparr>"

section \<open>Properties\<close>

text \<open>
  A database whose two channels were created at the same time and whose two members
  have the same role, so that the query admits more than one order, and servers built
  from the example with other channels and members.
\<close>

definition tie_db :: db where
  "tie_db = example_db\<lparr>db_channels := [example_channel ''c1'' TEXT 1, example_channel ''c2'' AUDIO 1],
                       db_members := [example_row ''m1'' GUEST alice, example_row ''m2'' GUEST bob]\<rparr>"

definition tie_server :: "channel list \<Rightarrow> member list \<Rightarrow> server" where
  "tie_server cs ms = example_server\<lparr>server_channels := cs, server_members := ms\<rparr>"

text \<open>
  Two requests for \<open>s1\<close> on the example database: Bob signed in, and nobody signed in.
\<close>

definition bob_request :: request where
  "bob_request = \<lparr>req_session = \<lparr>session_userId = Some ''u2''\<rparr>, req_db = example_db, req_log = []\<rparr>"

definition signed_out_request :: request where
  "signed_out_request = bob_request\<lparr>req_session := \<lparr>session_userId = None\<rparr>\<rparr>"

text \<open>The example database with one more member row of \<open>s1\<close> whose profile is missing.\<close>

definition dangling_db :: db where
  "dangling_db = example_db\<lparr>db_members := db_members example_db @
     [\<lparr>member_id = ''m4'', member_role = GUEST, member_profileId = ''p9'', member_serverId = ''s1''\<rparr>]\<rparr>"

lemmas example_defs = less_eq_member_role_def less_member_role_def alice_def bob_def example_channel_def example_row_def example_member_def
  example_db_def example_server_def

lemma example_db_wf: "db_wf example_db"
  by (simp add: db_wf_def example_defs)

lemma example_query: "find_unique_server example_db ''s1'' = Inr (Some example_server)"
  by (simp add: find_unique_server_simps include_profile_def example_defs)

lemma example_viewer_role: "viewer_role alice example_server = Some MODERATOR"
  by (simp add: viewer_role_def example_defs)

lemma example_current_profile: "currentProfile \<lparr>session_userId = Some ''u2''\<rparr> example_db = Some bob"
  by (simp add: currentProfile_def example_defs)

lemma bob_request_run:
  "run_state (ServerSidebar \<lparr>serverId = ''s1''\<rparr>) bob_request =
   (Inr (sidebar_view bob example_server),
    bob_request\<lparr>req_log := [ResolveProfile, FindUniqueServer ''s1'']\<rparr>)"
  by (simp add: run_ServerSidebar bob_request_def example_current_profile example_query
                server_sidebar_page_def server_sidebar_def)

lemma signed_out_request_run:
  "run_state (ServerSidebar \<lparr>serverId = ''s1''\<rparr>) signed_out_request =
   (Inl (Redirect ''/''), signed_out_request\<lparr>req_log := [ResolveProfile, Navigate ''/'']\<rparr>)"
  by (simp add: run_ServerSidebar signed_out_request_def bob_request_def currentProfile_def
                server_sidebar_page_def server_sidebar_def)

lemma header_role_view: "collect header_role (sidebar_view p s) = [viewer_role p s]"
  by (simp add: view_defs Let_def comp_def)

lemma view_abs_sorted_members:
  assumes "sorted (map member_role (server_members s))"
  shows "view_abs (sidebar_view p s) = sidebar_spec p s"
proof -
  have role: "viewer_role p s = spec_role p s"
    using viewer_role_sorted_Min [OF assms] by (simp add: spec_role_def)
  have sections: "section_contents (sidebar_view p s) =
    map (\<lambda>t. (t, filter (\<lambda>c. channel_type c = t) (server_channels s)))
      (filter (\<lambda>t. \<exists>c \<in> set (server_channels s). channel_type c = t) [TEXT, AUDIO, VIDEO, SLATE, TODO])"
    by (simp only: section_contents_view channel_group_nonempty_iff section_order_def)
       (simp add: channel_group_filter)
  have progress: "shows_progress (sidebar_view p s) \<longleftrightarrow>
    spec_role p s \<in> {Some ADMIN, Some MODERATOR} \<and> (\<exists>c \<in> set (server_channels s). channel_type c = TODO)"
    using channel_group_nonempty_iff [of TODO s]
    by (auto simp: shows_progress_view role)
  show ?thesis
    using role sections progress
    by (simp add: view_abs_def sidebar_spec_def header_role_view member_rows_view
                  other_members_def Let_def)
qed

text \<open>
  C3. Refinement: whenever the sidebar renders, it renders for the server the query
  returned, and what it shows is exactly what the specification prescribes for that
  server and viewer.
\<close>

theorem server_sidebar_refines_spec:
  assumes "server_sidebar (Some p) d sid = Inr v"
  shows "\<exists>s. find_unique_server d sid = Inr (Some s) \<and> view_abs v = sidebar_spec p s"
proof -
  from assms obtain s where q: "find_unique_server d sid = Inr (Some s)"
    and v: "v = sidebar_view p s"
    by (auto simp: server_sidebar_Inr)
  with view_abs_sorted_members [OF find_unique_server_sorted(2) [OF q]] show ?thesis
    by blast
qed

lemma spec_role_mset:
  "mset (server_members s1) = mset (server_members s2) \<Longrightarrow> spec_role p s1 = spec_role p s2"
proof -
  assume m: "mset (server_members s1) = mset (server_members s2)"
  then have "set (server_members s1) = set (server_members s2)"
    by (metis set_mset_mset)
  then have "set (map member_role (filter (\<lambda>m. member_profileId m = profile_id p) (server_members s1))) =
             set (map member_role (filter (\<lambda>m. member_profileId m = profile_id p) (server_members s2)))"
    by simp
  then show ?thesis
    by (simp add: spec_role_def Let_def flip: set_empty)
qed

lemma sidebar_spec_mset:
  assumes c: "mset (server_channels s1) = mset (server_channels s2)"
    and m: "mset (server_members s1) = mset (server_members s2)"
  shows "abs_equiv (sidebar_spec p s1) (sidebar_spec p s2)"
proof -
  from c have cs: "set (server_channels s1) = set (server_channels s2)"
    by (metis set_mset_mset)
  have f: "mset (filter P (server_channels s1)) = mset (filter P (server_channels s2))" for P
    using c by (simp add: mset_filter)
  have fm: "mset (filter P (server_members s1)) = mset (filter P (server_members s2))" for P
    using m by (simp add: mset_filter)
  show ?thesis
    using spec_role_mset [OF m, of p] cs f fm
    by (simp add: abs_equiv_def sidebar_spec_def Let_def list_all2_map1 list_all2_map2
                  list_all2_refl)
qed

text \<open>
  C20. The refinement holds for every result the query may return: for any tie order
  the database picks, what the sidebar shows is what the specification prescribes.
\<close>

theorem sidebar_refines_spec_any_order:
  assumes "query_admits d sid s"
  shows "view_abs (sidebar_view p s) = sidebar_spec p s"
  using assms by (simp add: query_admits_def view_abs_sorted_members)

text \<open>
  C21. What a viewer sees does not depend on the tie order: two results the query
  admits render the same role, the same sections with the same channels, the same
  progress widget and the same members, up to the order of rows with equal keys.
\<close>

theorem sidebar_tie_order_independent:
  assumes "query_admits d sid s1" and "query_admits d sid s2"
  shows "abs_equiv (view_abs (sidebar_view p s1)) (view_abs (sidebar_view p s2))"
proof -
  from assms have c: "mset (server_channels s1) = mset (server_channels s2)"
    by (simp add: query_admits_def)
  from assms have m: "mset (server_members s1) = mset (server_members s2)"
    by (auto simp: query_admits_def split: option.splits)
  from assms show ?thesis
    using sidebar_spec_mset [OF c m, of p]
    by (simp add: query_admits_def view_abs_sorted_members)
qed
text \<open>
  C17. The search box and the rendered lists agree: the one search index in the tree
  lists the channel rows' channels and the member rows' members, by id, in the same
  order as the rows appear.
\<close>

theorem search_matches_rendered_rows:
  "\<exists>gs. collect search_node (sidebar_view p s) = [gs] \<and>
     map item_id (channel_entries gs) = map (channel_id \<circ> fst) (channel_rows (sidebar_view p s)) \<and>
     map item_id (member_entries gs) = map member_id (member_rows (sidebar_view p s))"
  by (simp add: search_node_view channel_entries_server_search_data channel_rows_view
                member_entries_server_search_data member_rows_view channel_item_def member_item_def)

text \<open>
  C18. What the sidebar renders keeps the query's order: the member rows are sorted by
  role, and the channels of every section by creation time.
\<close>

theorem server_sidebar_rows_ordered:
  assumes "server_sidebar (Some p) d sid = Inr v"
  shows "sorted (map member_role (member_rows v)) \<and>
    (\<forall>(t, cs) \<in> set (section_contents v). sorted (map channel_createdAt cs))"
proof -
  from assms obtain s where q: "find_unique_server d sid = Inr (Some s)"
    and v: "v = sidebar_view p s"
    by (auto simp: server_sidebar_Inr)
  have "sorted (map member_role (member_rows v))"
    using find_unique_server_sorted(2) [OF q]
    by (simp add: v member_rows_view other_members_def sorted_filter)
  moreover have "sorted (map channel_createdAt cs)" if "(t, cs) \<in> set (section_contents v)" for t cs
    using that channel_group_sorted [OF find_unique_server_sorted(1) [OF q]]
    by (auto simp: v section_contents_view)
  ultimately show ?thesis by blast
qed

text \<open>
  C30. End to end: when the request of a signed-in user on a well-formed database renders
  a sidebar, what it shows is the specification's view, for that user's own profile, of a
  server the query admits for the requested identifier.
\<close>

theorem request_refines_spec:
  assumes "db_wf (req_db r)" and "p \<in> set (db_profiles (req_db r))"
    and "session_userId (req_session r) = Some (profile_userId p)"
    and "run_state (ServerSidebar props) r = (Inr v, r')"
  shows "\<exists>s. query_admits (req_db r) (serverId props) s \<and> view_abs v = sidebar_spec p s"
proof -
  have cp: "currentProfile (req_session r) (req_db r) = Some p"
    using currentProfile_correct [OF assms(1)] assms(2,3) by blast
  from assms(4) have "server_sidebar (Some p) (req_db r) (serverId props) = Inr v"
    by (simp add: run_ServerSidebar server_sidebar_page_def cp)
  then obtain s where q: "find_unique_server (req_db r) (serverId props) = Inr (Some s)"
    and v: "v = sidebar_view p s"
    by (auto simp: server_sidebar_Inr)
  show ?thesis
    using find_unique_server_admits [OF q] view_abs_sorted_members [OF find_unique_server_sorted(2) [OF q]] v
    by blast
qed

section \<open>Witnesses\<close>

text \<open>Each property applied to the example database.\<close>

theorem server_sidebar_refines_spec_witness:
  "server_sidebar (Some alice) example_db ''s1'' = Inr (sidebar_view alice example_server) \<and>
   (\<exists>s. find_unique_server example_db ''s1'' = Inr (Some s) \<and>
        view_abs (sidebar_view alice example_server) = sidebar_spec alice s)"
proof -
  have h: "server_sidebar (Some alice) example_db ''s1'' = Inr (sidebar_view alice example_server)"
    by (simp add: server_sidebar_def example_query)
  show ?thesis using server_sidebar_refines_spec [OF h] h by simp
qed

theorem find_unique_server_result_witness:
  "find_unique_server example_db ''s1'' = Inr (Some example_server) \<and>
   sorted (map channel_createdAt (server_channels example_server))"
  using find_unique_server_result [OF example_query] example_query by simp

theorem viewer_role_least_witness:
  "sorted (map member_role (server_members example_server)) \<and>
   viewer_role alice example_server = Some MODERATOR \<and>
   MODERATOR \<le> member_role (example_member ''m1'' GUEST alice)"
proof -
  have s: "sorted (map member_role (server_members example_server))"
    by (simp add: example_defs)
  have "example_member ''m1'' GUEST alice \<in> set (server_members example_server)"
    and "member_profileId (example_member ''m1'' GUEST alice) = profile_id alice"
    by (simp_all add: example_server_def example_member_def)
  then show ?thesis
    using viewer_role_least [OF s example_viewer_role] s example_viewer_role by blast
qed

theorem server_sidebar_wf_renders_witness:
  "db_wf example_db \<and> (\<exists>v. server_sidebar (Some bob) example_db ''s1'' = Inr v)"
  using server_sidebar_wf_renders [OF example_db_wf, of bob "''s1''"] example_db_wf
  by (simp add: example_defs)

theorem server_sidebar_no_profile_witness:
  "server_sidebar None example_db ''s1'' = Inl (Redirect ''/'')"
  by (rule server_sidebar_no_profile)

theorem server_sidebar_redirect_iff_witness:
  "server_sidebar (Some alice) example_db ''s9'' = Inl (Redirect ''/'')"
  by (simp add: server_sidebar_redirect_iff example_defs)

theorem sidebar_view_members_witness:
  "(\<exists>srv. ServerMember (example_member ''m2'' ADMIN bob) srv \<in> set (nodes (sidebar_view alice example_server))) \<and>
   \<not> (\<exists>srv. ServerMember (example_member ''m3'' MODERATOR alice) srv \<in> set (nodes (sidebar_view alice example_server)))"
  by (simp only: sidebar_view_members) (simp add: example_defs)

theorem sidebar_view_progress_witness:
  "OverallProgress \<in> set (nodes (sidebar_view alice example_server))"
proof -
  have "\<exists>c \<in> set (server_channels example_server). channel_type c = TODO"
    by (simp add: example_server_def example_channel_def)
  then show ?thesis by (simp add: sidebar_view_progress example_viewer_role)
qed

theorem sidebar_view_section_order_witness:
  "section_types (sidebar_view alice example_server) = [TEXT, AUDIO, TODO]"
  by (simp add: sidebar_view_section_order example_server_def example_channel_def)

theorem channel_groups_partition_witness:
  "size (mset (textChannels example_server @ audioChannels example_server @
     videoChannels example_server @ slateChannels example_server @ todoChannels example_server)) = 4"
  by (simp only: channel_groups_partition) (simp add: example_server_def)

theorem sidebar_view_channel_rows_witness:
  "(example_channel ''c4'' TODO 4, Some True) \<in># mset (channel_rows (sidebar_view alice example_server)) \<and>
   (example_channel ''c1'' TEXT 3, None) \<in># mset (channel_rows (sidebar_view alice example_server))"
  by (simp only: sidebar_view_channel_rows) (simp add: example_server_def example_channel_def)

theorem search_index_channels_witness:
  "size (mset (channel_entries (server_search_data alice example_server))) = 4"
  by (simp only: search_index_channels) (simp add: example_server_def)

theorem search_index_members_witness:
  "map (\<lambda>e. (item_id e, item_name e, item_icon e = None))
     (member_entries (server_search_data alice example_server)) = [(''m2'', ''Bob'', False)]"
  by (simp only: search_index_members) (simp add: example_defs)

theorem sidebar_view_props_witness:
  "set (collect role_props (sidebar_view alice example_server)) \<subseteq> {Some MODERATOR}"
  using sidebar_view_props [of alice example_server] by (simp add: example_viewer_role)

theorem sidebar_view_text_text_audio_witness:
  "section_contents (sidebar_view alice
     (example_server\<lparr>server_channels := [example_channel ''a'' TEXT 1, example_channel ''b'' TEXT 2,
                                         example_channel ''c'' AUDIO 3]\<rparr>)) =
   [(TEXT, [example_channel ''a'' TEXT 1, example_channel ''b'' TEXT 2]),
    (AUDIO, [example_channel ''c'' AUDIO 3])]"
  by (rule sidebar_view_text_text_audio) (simp_all add: example_channel_def)

theorem search_matches_rendered_rows_witness:
  "\<exists>gs. collect search_node (sidebar_view alice example_server) = [gs] \<and>
     map item_id (channel_entries gs) = map (channel_id \<circ> fst) (channel_rows (sidebar_view alice example_server)) \<and>
     map item_id (member_entries gs) = map member_id (member_rows (sidebar_view alice example_server))"
  by (rule search_matches_rendered_rows)
theorem server_sidebar_rows_ordered_witness:
  "server_sidebar (Some alice) example_db ''s1'' = Inr (sidebar_view alice example_server) \<and>
   sorted (map member_role (member_rows (sidebar_view alice example_server)))"
proof -
  have h: "server_sidebar (Some alice) example_db ''s1'' = Inr (sidebar_view alice example_server)"
    by (simp add: server_sidebar_def example_query)
  then show ?thesis using server_sidebar_rows_ordered [OF h] by simp
qed
theorem server_sidebar_page_viewer_witness:
  "server_sidebar_page \<lparr>session_userId = Some ''u1''\<rparr> example_db ''s1'' =
   Inr (sidebar_view alice example_server)"
proof -
  have "alice \<in> set (db_profiles example_db)" by (simp add: example_db_def)
  moreover have "session_userId \<lparr>session_userId = Some ''u1''\<rparr> = Some (profile_userId alice)"
    by (simp add: alice_def)
  ultimately show ?thesis
    using server_sidebar_page_viewer [OF example_db_wf] by (simp add: server_sidebar_def example_query)
qed

theorem sidebar_refines_spec_any_order_witness:
  "query_admits example_db ''s1'' example_server \<and>
   view_abs (sidebar_view alice example_server) = sidebar_spec alice example_server"
  using sidebar_refines_spec_any_order [OF find_unique_server_admits [OF example_query]]
    find_unique_server_admits [OF example_query] by simp

theorem sidebar_tie_order_independent_witness:
  "query_admits tie_db ''s1''
     (tie_server [example_channel ''c1'' TEXT 1, example_channel ''c2'' AUDIO 1]
                 [example_member ''m1'' GUEST alice, example_member ''m2'' GUEST bob]) \<and>
   query_admits tie_db ''s1''
     (tie_server [example_channel ''c2'' AUDIO 1, example_channel ''c1'' TEXT 1]
                 [example_member ''m2'' GUEST bob, example_member ''m1'' GUEST alice]) \<and>
   abs_equiv
     (view_abs (sidebar_view alice (tie_server [example_channel ''c1'' TEXT 1, example_channel ''c2'' AUDIO 1]
                 [example_member ''m1'' GUEST alice, example_member ''m2'' GUEST bob])))
     (view_abs (sidebar_view alice (tie_server [example_channel ''c2'' AUDIO 1, example_channel ''c1'' TEXT 1]
                 [example_member ''m2'' GUEST bob, example_member ''m1'' GUEST alice])))"
proof -
  have a: "query_admits tie_db ''s1''
     (tie_server [example_channel ''c1'' TEXT 1, example_channel ''c2'' AUDIO 1]
                 [example_member ''m1'' GUEST alice, example_member ''m2'' GUEST bob])"
    by (simp add: query_admits_def tie_db_def tie_server_def include_profile_def example_defs)
  have b: "query_admits tie_db ''s1''
     (tie_server [example_channel ''c2'' AUDIO 1, example_channel ''c1'' TEXT 1]
                 [example_member ''m2'' GUEST bob, example_member ''m1'' GUEST alice])"
    by (simp add: query_admits_def tie_db_def tie_server_def include_profile_def example_defs
                  add_mset_commute)
  show ?thesis using sidebar_tie_order_independent [OF a b] a b by simp
qed

theorem sidebar_view_well_typed_witness: "wt_view (sidebar_view alice example_server)"
  by (rule sidebar_view_well_typed)

theorem sidebar_view_size_witness:
  "length (nodes (sidebar_view alice example_server)) \<le> 35"
  using sidebar_view_size [of alice example_server] by (simp add: example_server_def)

theorem sidebar_view_empty_server_witness:
  "sidebar_view alice (tie_server [] [example_member ''m1'' GUEST alice]) =
   Div [ServerHeader (tie_server [] [example_member ''m1'' GUEST alice]) (Some GUEST),
        ScrollArea [Div [ServerSearch (search_data [] [] [] [] [] [])], Separator]]"
proof -
  have "viewer_role alice (tie_server [] [example_member ''m1'' GUEST alice]) = Some GUEST"
    by (simp add: viewer_role_def tie_server_def example_member_def)
  moreover have "sidebar_view alice (tie_server [] [example_member ''m1'' GUEST alice]) =
    Div [ServerHeader (tie_server [] [example_member ''m1'' GUEST alice])
           (viewer_role alice (tie_server [] [example_member ''m1'' GUEST alice])),
         ScrollArea [Div [ServerSearch (search_data [] [] [] [] [] [])], Separator]]"
    by (rule sidebar_view_empty_server) (simp_all add: tie_server_def example_member_def)
  ultimately show ?thesis by simp
qed

theorem search_groups_match_sections_witness:
  "map (\<lambda>(t, g). (t, map item_id (group_data g)))
     (filter (\<lambda>(t, g). group_data g \<noteq> []) (zip section_order (server_search_data alice example_server))) =
   map (\<lambda>(t, cs). (t, map channel_id cs)) (section_contents (sidebar_view alice example_server))"
  by (rule search_groups_match_sections)

theorem search_icons_roundtrip_witness:
  "map (\<lambda>e. icon_role (item_icon e)) (member_entries (server_search_data alice example_server)) =
   [Some ADMIN]"
  using search_icons_roundtrip [of alice example_server]
  by (simp add: other_members_def example_defs)

theorem server_sidebar_keys_unique_witness:
  "keys_unique (sidebar_view bob example_server)"
  using server_sidebar_keys_unique [OF example_db_wf, of bob "''s1''"]
  by (simp add: server_sidebar_def example_query)

theorem request_refines_spec_witness:
  "\<exists>s. query_admits example_db ''s1'' s \<and> view_abs (sidebar_view bob example_server) = sidebar_spec bob s"
proof -
  have "bob \<in> set (db_profiles (req_db bob_request))"
    and "session_userId (req_session bob_request) = Some (profile_userId bob)"
    by (simp_all add: bob_request_def example_db_def bob_def)
  moreover have "db_wf (req_db bob_request)"
    using example_db_wf by (simp add: bob_request_def)
  ultimately show ?thesis
    using request_refines_spec [OF _ _ _ bob_request_run] by (simp add: bob_request_def)
qed

theorem find_unique_server_error_iff_witness:
  "find_unique_server dangling_db ''s1'' = Inl InconsistentQuery"
  using find_unique_server_error_iff [of dangling_db "''s1''"]
  by (simp add: dangling_db_def example_defs)

theorem ServerSidebar_render_effects_witness:
  "\<exists>v r'. run_state (ServerSidebar \<lparr>serverId = ''s1''\<rparr>) bob_request = (Inr v, r') \<and>
          req_log r' = [ResolveProfile, FindUniqueServer ''s1'']"
  using ServerSidebar_render_effects [OF bob_request_run] bob_request_run
  by (simp add: bob_request_def)

theorem ServerSidebar_profile_before_query_witness:
  "\<exists>res r' t. run_state (ServerSidebar \<lparr>serverId = ''s1''\<rparr>) signed_out_request = (res, r') \<and>
     req_log r' = ResolveProfile # t \<and> filter is_query t = []"
  using ServerSidebar_profile_before_query [OF signed_out_request_run] signed_out_request_run
  by (simp add: signed_out_request_def bob_request_def currentProfile_def)

end
